theory Spec2Isabelle
  imports Main "HOL-Library.Multiset" "HOL-Library.AList"
begin

section \<open>CSI frontend: access modes and protocols (frontend/csi)\<close>

text \<open>
  The enumeration \<open>csi.VolumeCapability_AccessMode_Mode\<close> of the CSI library. The
  switch statements of the plugin name five of its values; every other value
  (\<open>UNKNOWN\<close> among them) takes the \<open>default\<close> branch.
\<close>

datatype csi_access_mode =
    UNKNOWN
  | SINGLE_NODE_WRITER
  | SINGLE_NODE_READER_ONLY
  | MULTI_NODE_READER_ONLY
  | MULTI_NODE_SINGLE_WRITER
  | MULTI_NODE_MULTI_WRITER

text \<open>\<open>tridentconfig.AccessMode\<close> and \<open>tridentconfig.Protocol\<close>.\<close>

datatype AccessMode = ModeAny | ReadWriteOnce | ReadOnlyMany | ReadWriteMany

datatype Protocol = File | Block | ProtocolAny

text \<open>\<open>Plugin.getAccessForCSIAccessMode\<close>.\<close>

fun getAccessForCSIAccessMode :: "csi_access_mode \<Rightarrow> AccessMode" where
  "getAccessForCSIAccessMode SINGLE_NODE_WRITER = ReadWriteOnce"
| "getAccessForCSIAccessMode SINGLE_NODE_READER_ONLY = ReadWriteOnce"
| "getAccessForCSIAccessMode MULTI_NODE_READER_ONLY = ReadOnlyMany"
| "getAccessForCSIAccessMode MULTI_NODE_SINGLE_WRITER = ReadWriteMany"
| "getAccessForCSIAccessMode MULTI_NODE_MULTI_WRITER = ReadWriteMany"
| "getAccessForCSIAccessMode _ = ModeAny"

text \<open>\<open>Plugin.getProtocolForCSIAccessMode\<close>.\<close>

fun getProtocolForCSIAccessMode :: "csi_access_mode \<Rightarrow> Protocol" where
  "getProtocolForCSIAccessMode SINGLE_NODE_WRITER = ProtocolAny"
| "getProtocolForCSIAccessMode SINGLE_NODE_READER_ONLY = ProtocolAny"
| "getProtocolForCSIAccessMode MULTI_NODE_READER_ONLY = ProtocolAny"
| "getProtocolForCSIAccessMode MULTI_NODE_SINGLE_WRITER = ProtocolAny"
| "getProtocolForCSIAccessMode MULTI_NODE_MULTI_WRITER = File"
| "getProtocolForCSIAccessMode _ = ProtocolAny"

section \<open>CSI controller: CreateVolume (frontend/csi)\<close>

text \<open>
  The fields of \<open>storage.VolumeConfig\<close>, \<open>storage.VolumeExternal\<close> and
  \<open>storage.BackendExternal\<close> that the CSI plugin reads or writes.
\<close>

record VolumeConfig =
  cfgName :: string
  cfgInternalName :: string
  cfgSize :: string
  cfgProtocol :: Protocol
  cfgAccessMode :: AccessMode
  cfgFileSystem :: string
  cfgStorageClass :: string
  cfgCloneSourceVolume :: string

record VolumeExternal =
  volConfig :: VolumeConfig
  volBackend :: string

record BackendExternal =
  beName :: string
  beProtocol :: Protocol

text \<open>
  Orchestrator errors, by the kind that \<open>core.IsNotReadyError\<close>,
  \<open>core.IsBootstrapError\<close> and \<open>core.IsNotFoundError\<close> recognise; the string is
  \<open>err.Error()\<close>.
\<close>

datatype orch_error =
    NotReadyError string
  | BootstrapError string
  | NotFoundError string
  | OtherError string

fun errorText :: "orch_error \<Rightarrow> string" where
  "errorText (NotReadyError m) = m"
| "errorText (BootstrapError m) = m"
| "errorText (NotFoundError m) = m"
| "errorText (OtherError m) = m"

fun IsNotReadyError :: "orch_error \<Rightarrow> bool" where
  "IsNotReadyError (NotReadyError _) = True"
| "IsNotReadyError _ = False"

fun IsBootstrapError :: "orch_error \<Rightarrow> bool" where
  "IsBootstrapError (BootstrapError _) = True"
| "IsBootstrapError _ = False"

fun IsNotFoundError :: "orch_error \<Rightarrow> bool" where
  "IsNotFoundError (NotFoundError _) = True"
| "IsNotFoundError _ = False"

text \<open>gRPC status codes (\<open>codes\<close>) and \<open>status.Error(code, message)\<close>.\<close>

datatype codes =
    InvalidArgument
  | AlreadyExists
  | Internal
  | Unavailable
  | FailedPrecondition
  | NotFound
  | Unknown
  | Unimplemented

datatype grpc_status = Status codes string

text \<open>
  What an RPC handler does: it returns a response, returns a status error, or
  panics (a nil pointer dereference).
\<close>

datatype 'a rpc_result = Panicked | Failed grpc_status | Returned 'a

text \<open>\<open>Plugin.getCSIErrorForOrchestratorError\<close>.\<close>

definition getCSIErrorForOrchestratorError :: "orch_error \<Rightarrow> grpc_status" where
  "getCSIErrorForOrchestratorError err =
     (if IsNotReadyError err then Status Unavailable (errorText err)
      else if IsBootstrapError err then Status FailedPrecondition (errorText err)
      else if IsNotFoundError err then Status NotFound (errorText err)
      else Status Unknown (errorText err))"

text \<open>
  The CSI request. A capability's access type is a oneof (block, mount with its
  fsType, or unset); its access mode is a pointer and may be nil. A nil capability
  slice and a nil capacity range are \<open>None\<close>.
\<close>

datatype access_type = NoAccessType | BlockAccess | MountAccess string

record VolumeCapability =
  capAccessType :: access_type
  capAccessMode :: "csi_access_mode option"

record CapacityRange =
  RequiredBytes :: int
  LimitBytes :: int

record CreateVolumeRequest =
  reqName :: string
  reqVolumeCapabilities :: "VolumeCapability list option"
  reqCapacityRange :: "CapacityRange option"
  reqParameters :: "(string \<times> string) list"

text \<open>
  \<open>csi.Volume\<close>; the volume context is the map literal of
  \<open>getCSIVolumeFromTridentVolume\<close>, with its four fixed keys.
\<close>

record VolumeContext =
  ctxBackend :: string
  ctxName :: string
  ctxInternalName :: string
  ctxProtocol :: Protocol

record csiVolume =
  CapacityBytes :: int
  VolumeId :: string
  volumeContext :: VolumeContext

text \<open>
  \<open>strconv.ParseInt(s, 10, 64)\<close> of the Go library: an optional sign, then one
  or more decimal digits. A syntax error gives 0; a value outside the int64 range
  gives the nearest bound, with a range error. The result is the value and
  whether an error was returned.
\<close>

definition isDigit :: "char \<Rightarrow> bool" where
  "isDigit c = (48 \<le> (of_char c :: int) \<and> (of_char c :: int) \<le> 57)"

fun digitsValue :: "int \<Rightarrow> string \<Rightarrow> int" where
  "digitsValue acc [] = acc"
| "digitsValue acc (c # cs) = digitsValue (acc * 10 + ((of_char c :: int) - 48)) cs"

definition ParseUint :: "string \<Rightarrow> int option" where
  "ParseUint s = (if s = [] \<or> \<not> list_all isDigit s then None else Some (digitsValue 0 s))"

definition ParseInt :: "string \<Rightarrow> int \<times> bool" where
  "ParseInt s =
     (if s = [] then (0, True)
      else
        let neg = (hd s = CHR ''-'');
            digits = (if hd s = CHR ''+'' \<or> hd s = CHR ''-'' then tl s else s)
        in case ParseUint digits of
             None \<Rightarrow> (0, True)
           | Some un \<Rightarrow>
               if \<not> neg \<and> un \<ge> 2 ^ 63 then (2 ^ 63 - 1, True)
               else if neg \<and> un > 2 ^ 63 then (- (2 ^ 63), True)
               else (if neg then - un else un, False))"

text \<open>\<open>Plugin.getCSIVolumeFromTridentVolume\<close>; its error result is always nil.\<close>

definition getCSIVolumeFromTridentVolume :: "VolumeExternal \<Rightarrow> csiVolume" where
  "getCSIVolumeFromTridentVolume volume =
     (let (parsed, err) = ParseInt (cfgSize (volConfig volume));
          capacity = (if err then 0 else parsed)
      in \<lparr> CapacityBytes = capacity,
           VolumeId = cfgName (volConfig volume),
           volumeContext = \<lparr> ctxBackend = volBackend volume,
                             ctxName = cfgName (volConfig volume),
                             ctxInternalName = cfgInternalName (volConfig volume),
                             ctxProtocol = cfgProtocol (volConfig volume) \<rparr> \<rparr>)"

text \<open>
  The collaborators of the plugin, over an orchestrator state \<open>'s\<close>: the
  \<open>core.Orchestrator\<close> interface and the two helpers of \<open>frontend/common\<close>.
  \<open>GetVolume\<close> keeps Go's pair of a pointer and an error, since \<open>CreateVolume\<close>
  tests each on its own.
\<close>

record 's Orchestrator =
  orchGetVolume :: "string \<Rightarrow> 's \<Rightarrow> (VolumeExternal option \<times> orch_error option) \<times> 's"
  orchListBackends :: "'s \<Rightarrow> (BackendExternal list option \<times> orch_error option) \<times> 's"
  orchAddVolume :: "VolumeConfig \<Rightarrow> 's \<Rightarrow> (orch_error + VolumeExternal) \<times> 's"
  commonGetStorageClass :: "(string \<times> string) list \<Rightarrow> 's \<Rightarrow> (orch_error + string) \<times> 's"
  commonGetVolumeConfig ::
    "string \<Rightarrow> string \<Rightarrow> int \<Rightarrow> (string \<times> string) list \<Rightarrow> Protocol \<Rightarrow> AccessMode
       \<Rightarrow> orch_error + VolumeConfig"

text \<open>The calls a handler makes on its collaborators, in order.\<close>

datatype orch_call =
    GetVolumeCall string
  | ListBackendsCall
  | GetStorageClassCall
  | AddVolumeCall VolumeConfig

text \<open>\<open>Plugin.hasBackendForProtocol\<close>.\<close>

definition hasBackendForProtocol ::
  "'s Orchestrator \<Rightarrow> Protocol \<Rightarrow> 's \<times> orch_call list \<Rightarrow> bool \<times> ('s \<times> orch_call list)" where
  "hasBackendForProtocol p protocol st =
     (let ((backends, err), s') = orchListBackends p (fst st);
          st' = (s', snd st @ [ListBackendsCall])
      in if err \<noteq> None \<or> backends = None \<or> backends = Some [] then (False, st')
         else if protocol = ProtocolAny then (True, st')
         else (case backends of
                 None \<Rightarrow> (False, st')
               | Some bs \<Rightarrow>
                   (list_ex (\<lambda>b. beProtocol b = ProtocolAny \<or> beProtocol b = protocol) bs, st')))"

text \<open>
  The loop of \<open>CreateVolume\<close> over the requested capabilities; it carries
  \<open>accessMode\<close>, \<open>protocol\<close> and \<open>fileSystem\<close>.
\<close>

fun capabilityLoop ::
  "'s Orchestrator \<Rightarrow> VolumeCapability list \<Rightarrow> AccessMode \<times> Protocol \<times> string
     \<Rightarrow> 's \<times> orch_call list
     \<Rightarrow> (AccessMode \<times> Protocol \<times> string) rpc_result \<times> ('s \<times> orch_call list)" where
  "capabilityLoop p [] vars st = (Returned vars, st)"
| "capabilityLoop p (capability # rest) vars st =
     (if capAccessType capability = BlockAccess
      then (Failed (Status InvalidArgument ''block access type not supported''), st)
      else
        (case capAccessMode capability of
           None \<Rightarrow> (Panicked, st)
         | Some mode \<Rightarrow>
             (case hasBackendForProtocol p (getProtocolForCSIAccessMode mode) st of
                (False, st') \<Rightarrow>
                  (Failed (Status InvalidArgument ''no available storage for access mode''), st')
              | (True, st') \<Rightarrow>
                  capabilityLoop p rest
                    (getAccessForCSIAccessMode mode, getProtocolForCSIAccessMode mode,
                     (case capAccessType capability of
                        MountAccess fsType \<Rightarrow> fsType
                      | _ \<Rightarrow> snd (snd vars)))
                    st')))"

text \<open>
  \<open>req.GetCapacityRange().GetRequiredBytes()\<close>: 0 when the request has no
  capacity range.
\<close>

definition requiredBytes :: "CreateVolumeRequest \<Rightarrow> int" where
  "requiredBytes req = (case reqCapacityRange req of None \<Rightarrow> 0 | Some r \<Rightarrow> RequiredBytes r)"

text \<open>
  \<open>Plugin.CreateVolume\<close>, in three parts: the creation of a new volume, the
  handling of a pre-existing volume, and the argument checks with the lookup.
\<close>

definition createNewVolume ::
  "'s Orchestrator \<Rightarrow> CreateVolumeRequest \<Rightarrow> 's \<times> orch_call list
     \<Rightarrow> csiVolume rpc_result \<times> ('s \<times> orch_call list)" where
  "createNewVolume p req st =
     (case capabilityLoop p (case reqVolumeCapabilities req of None \<Rightarrow> [] | Some cs \<Rightarrow> cs)
             (ModeAny, ProtocolAny, []) st of
        (Panicked, st1) \<Rightarrow> (Panicked, st1)
      | (Failed e, st1) \<Rightarrow> (Failed e, st1)
      | (Returned (accessMode, protocol, fileSystem), st1) \<Rightarrow>
          (case commonGetStorageClass p (reqParameters req) (fst st1) of
             (Inl err, s2) \<Rightarrow>
               (Failed (Status InvalidArgument
                  ''could not create a storage class from volume request''),
                (s2, snd st1 @ [GetStorageClassCall]))
           | (Inr scName, s2) \<Rightarrow>
               (let sizeBytes = requiredBytes req
                in case commonGetVolumeConfig p (reqName req) scName sizeBytes
                          (reqParameters req) protocol accessMode of
                     Inl err \<Rightarrow>
                       (Failed (getCSIErrorForOrchestratorError err),
                        (s2, snd st1 @ [GetStorageClassCall]))
                   | Inr cfg \<Rightarrow>
                       (let volCfg = (if cfgFileSystem cfg = []
                                      then cfg\<lparr>cfgFileSystem := fileSystem\<rparr> else cfg)
                        in case orchAddVolume p volCfg s2 of
                             (Inl err, s3) \<Rightarrow>
                               (Failed (getCSIErrorForOrchestratorError err),
                                (s3, snd st1 @ [GetStorageClassCall, AddVolumeCall volCfg]))
                           | (Inr newVolume, s3) \<Rightarrow>
                               (Returned (getCSIVolumeFromTridentVolume newVolume),
                                (s3, snd st1 @ [GetStorageClassCall, AddVolumeCall volCfg]))))))"

definition CreateVolume ::
  "'s Orchestrator \<Rightarrow> CreateVolumeRequest \<Rightarrow> 's
     \<Rightarrow> csiVolume rpc_result \<times> ('s \<times> orch_call list)" where
  "CreateVolume p req s =
     (if length (reqName req) = 0
      then (Failed (Status InvalidArgument ''volume name missing in request''), (s, []))
      else if reqVolumeCapabilities req = None
      then (Failed (Status InvalidArgument ''volume capabilities missing in request''), (s, []))
      else
        (case orchGetVolume p (reqName req) s of
           ((existingVolume, err), s1) \<Rightarrow>
             (case (case err of None \<Rightarrow> None
                    | Some e \<Rightarrow> if IsNotFoundError e then None else Some e) of
                Some e \<Rightarrow>
                  (Failed (getCSIErrorForOrchestratorError e), (s1, [GetVolumeCall (reqName req)]))
              | None \<Rightarrow>
                  (case existingVolume of
                     Some existing \<Rightarrow>
                       (if fst (ParseInt (cfgSize (volConfig existing))) < requiredBytes req
                        then (Failed (Status AlreadyExists
                                (''volume '' @ reqName req
                                   @ '' (but with different size) already exists'')),
                              (s1, [GetVolumeCall (reqName req)]))
                        else (Returned (getCSIVolumeFromTridentVolume existing),
                              (s1, [GetVolumeCall (reqName req)])))
                   | None \<Rightarrow>
                       createNewVolume p req (s1, [GetVolumeCall (reqName req)])))))"

section \<open>Passthrough persistent store (persistent_store, passthrough client)\<close>

text \<open>
  \<open>storage.VolumeExternalWrapper\<close>: a volume pointer and an error, either of
  which may be nil.
\<close>

record VolumeExternalWrapper =
  wVolume :: "VolumeExternal option"
  wError :: "string option"

text \<open>
  \<open>storage.Backend\<close>, as the passthrough client uses it: its name, and what its
  driver's \<open>GetVolumeExternalWrappers\<close> sends on the channel before closing it.
\<close>

record Backend =
  backendName :: string
  driverWrappers :: "VolumeExternalWrapper list"

text \<open>\<open>storage.BackendPersistent\<close>, as decoded from a backend config.\<close>

record BackendPersistent =
  bpVersion :: string
  bpConfig :: string
  bpName :: string
  bpOnline :: bool

datatype store_error = KeyNotFoundErr string | NotSupported string | OtherStoreError string

record PersistentStateVersion =
  PersistentStoreVersion :: string
  OrchestratorAPIVersion :: string

text \<open>
  \<open>PassthroughClient\<close>. The Go map \<open>liveBackends\<close> is an association list with
  one entry per key.
\<close>

record PassthroughClient =
  liveBackends :: "(string \<times> Backend) list"
  bootBackends :: "BackendPersistent list"
  version :: PersistentStateVersion

text \<open>
  What the file system answers at the config path: \<open>os.Stat\<close> (the path
  is missing, another error, or a mode), and then \<open>ioutil.ReadDir\<close> (an
  error, or the entries with their mode and contents) or \<open>ioutil.ReadFile\<close>.
\<close>

datatype read_result = ReadFailed | Contents string

record dir_entry =
  entryRegular :: bool
  entryRead :: read_result

datatype path_info =
    PathMissing
  | StatFailed string
  | PathDirectory "string + dir_entry list"
  | PathRegular read_result
  | PathOther

text \<open>
  The outcome of building the client: the process exits (\<open>log.Fatal\<close>), an
  error is returned, or the client is.
\<close>

datatype 'a init_result = Exited | InitFailed store_error | Initialized 'a

text \<open>
  \<open>PassthroughClient.loadBackend\<close>. The parameter \<open>decode\<close> is
  \<open>unmarshalConfig\<close> followed by \<open>json.Unmarshal\<close>: from the contents of a
  config file to a persistent backend, or an error.
\<close>

definition loadBackend ::
  "(string \<Rightarrow> store_error + BackendPersistent) \<Rightarrow> read_result \<Rightarrow> PassthroughClient
     \<Rightarrow> PassthroughClient init_result" where
  "loadBackend decode file c =
     (case file of
        ReadFailed \<Rightarrow> Exited
      | Contents fileContents \<Rightarrow>
          (case decode fileContents of
             Inl err \<Rightarrow> InitFailed err
           | Inr backend \<Rightarrow> Initialized (c\<lparr>bootBackends := bootBackends c @ [backend]\<rparr>)))"

text \<open>The loop of \<open>initialize\<close> over the entries of a config directory.\<close>

fun loadDirectory ::
  "(string \<Rightarrow> store_error + BackendPersistent) \<Rightarrow> dir_entry list \<Rightarrow> PassthroughClient
     \<Rightarrow> PassthroughClient init_result" where
  "loadDirectory decode [] c = Initialized c"
| "loadDirectory decode (file # files) c =
     (if \<not> entryRegular file then loadDirectory decode files c
      else (case loadBackend decode (entryRead file) c of
              Initialized c' \<Rightarrow> loadDirectory decode files c'
            | failure \<Rightarrow> failure))"

text \<open>\<open>PassthroughClient.initialize\<close>.\<close>

definition initialize ::
  "(string \<Rightarrow> store_error + BackendPersistent) \<Rightarrow> string \<Rightarrow> path_info \<Rightarrow> PassthroughClient
     \<Rightarrow> PassthroughClient init_result" where
  "initialize decode configPath info c =
     (if configPath = []
      then InitFailed (OtherStoreError
             ''passthrough store initialization failed, config path must be specified'')
      else (case info of
              PathMissing \<Rightarrow> InitFailed (OtherStoreError
                ''passthrough store initialization failed, config path does not exist'')
            | StatFailed err \<Rightarrow> InitFailed (OtherStoreError err)
            | PathDirectory (Inl err) \<Rightarrow> InitFailed (OtherStoreError err)
            | PathDirectory (Inr files) \<Rightarrow> loadDirectory decode files c
            | PathRegular file \<Rightarrow> loadBackend decode file c
            | PathOther \<Rightarrow> InitFailed (OtherStoreError
                ''passthrough store initialization failed, invalid config path'')))"

text \<open>\<open>NewPassthroughClient\<close>.\<close>

definition NewPassthroughClient ::
  "(string \<Rightarrow> store_error + BackendPersistent) \<Rightarrow> string \<Rightarrow> string \<Rightarrow> path_info
     \<Rightarrow> PassthroughClient init_result" where
  "NewPassthroughClient decode apiVersion configPath info =
     initialize decode configPath info
       \<lparr> liveBackends = [], bootBackends = [],
         version = \<lparr> PersistentStoreVersion = ''passthrough'',
                     OrchestratorAPIVersion = apiVersion \<rparr> \<rparr>"

text \<open>
  The backend operations of the client; each returns the client and the error
  (\<open>None\<close> for nil).
\<close>

definition Passthrough_AddBackend ::
  "Backend \<Rightarrow> PassthroughClient \<Rightarrow> PassthroughClient \<times> store_error option" where
  "Passthrough_AddBackend backend c =
     (c\<lparr>liveBackends := AList.update (backendName backend) backend (liveBackends c)\<rparr>, None)"

definition Passthrough_UpdateBackend ::
  "Backend \<Rightarrow> PassthroughClient \<Rightarrow> PassthroughClient \<times> store_error option" where
  "Passthrough_UpdateBackend backend c =
     (if map_of (liveBackends c) (backendName backend) = None
      then (c, Some (KeyNotFoundErr (backendName backend)))
      else (c\<lparr>liveBackends := AList.update (backendName backend) backend (liveBackends c)\<rparr>,
            None))"

definition Passthrough_DeleteBackend ::
  "Backend \<Rightarrow> PassthroughClient \<Rightarrow> PassthroughClient \<times> store_error option" where
  "Passthrough_DeleteBackend backend c =
     (if map_of (liveBackends c) (backendName backend) = None
      then (c, Some (KeyNotFoundErr (backendName backend)))
      else (c\<lparr>liveBackends := AList.delete (backendName backend) (liveBackends c)\<rparr>, None))"

definition Passthrough_DeleteBackends ::
  "PassthroughClient \<Rightarrow> PassthroughClient \<times> store_error option" where
  "Passthrough_DeleteBackends c = (c\<lparr>liveBackends := []\<rparr>, None)"

definition Passthrough_GetBackends ::
  "PassthroughClient \<Rightarrow> BackendPersistent list \<times> store_error option" where
  "Passthrough_GetBackends c = (foldl (\<lambda>backendList backend. backendList @ [backend]) []
                                  (bootBackends c), None)"

text \<open>Calls of the four backend-changing operations, and a run of such calls.\<close>

datatype backend_op =
    OpAddBackend Backend
  | OpUpdateBackend Backend
  | OpDeleteBackend Backend
  | OpDeleteBackends

fun applyBackendOp :: "PassthroughClient \<Rightarrow> backend_op \<Rightarrow> PassthroughClient" where
  "applyBackendOp c (OpAddBackend b) = fst (Passthrough_AddBackend b c)"
| "applyBackendOp c (OpUpdateBackend b) = fst (Passthrough_UpdateBackend b c)"
| "applyBackendOp c (OpDeleteBackend b) = fst (Passthrough_DeleteBackend b c)"
| "applyBackendOp c OpDeleteBackends = fst (Passthrough_DeleteBackends c)"

text \<open>
  The contents of the config files that \<open>initialize\<close> loads, in order: the
  regular files of a directory, or the single file.
\<close>

fun loadedContents :: "path_info \<Rightarrow> string list" where
  "loadedContents (PathDirectory (Inr files)) =
     concat (map (\<lambda>f. case entryRead f of Contents s \<Rightarrow> [s] | ReadFailed \<Rightarrow> [])
               (filter entryRegular files))"
| "loadedContents (PathRegular (Contents s)) = [s]"
| "loadedContents _ = []"

text \<open>
  \<open>PassthroughClient.getVolumesFromBackend\<close>: the wrappers that the goroutine of
  one backend forwards to the common channel, in order.
\<close>

definition getVolumesFromBackend :: "Backend \<Rightarrow> VolumeExternalWrapper list" where
  "getVolumesFromBackend backend =
     map (\<lambda>volume. case wVolume volume of
                      None \<Rightarrow> volume
                    | Some v \<Rightarrow> volume\<lparr>wVolume := Some (v\<lparr>volBackend := backendName backend\<rparr>)\<rparr>)
       (driverWrappers backend)"

text \<open>
  The common channel. The goroutines run concurrently, so the order in which
  their wrappers arrive is the scheduler's: \<open>sched\<close> names, step by step, the
  stream that delivers next (a step naming a finished or unknown stream
  delivers nothing). The channel is closed once every goroutine is done, so
  whatever the schedule leaves is still delivered.
\<close>

fun channelOrder :: "nat list \<Rightarrow> 'a list list \<Rightarrow> 'a list" where
  "channelOrder [] streams = concat streams"
| "channelOrder (i # sched) streams =
     (if i < length streams
      then (case streams ! i of
              [] \<Rightarrow> channelOrder sched streams
            | x # xs \<Rightarrow> x # channelOrder sched (streams[i := xs]))
      else channelOrder sched streams)"

text \<open>
  The receiving loop of \<open>GetVolumes\<close>: a wrapper with an error is logged and
  dropped, the volume pointer of any other wrapper is appended.
\<close>

fun collectVolumes :: "VolumeExternalWrapper list \<Rightarrow> VolumeExternal option list" where
  "collectVolumes [] = []"
| "collectVolumes (wrapper # rest) =
     (if wError wrapper \<noteq> None then collectVolumes rest
      else wVolume wrapper # collectVolumes rest)"

text \<open>\<open>PassthroughClient.GetVolumes\<close>, under a schedule.\<close>

definition Passthrough_GetVolumes ::
  "nat list \<Rightarrow> PassthroughClient \<Rightarrow> VolumeExternal option list \<times> store_error option" where
  "Passthrough_GetVolumes sched c =
     (collectVolumes
        (channelOrder sched (map (\<lambda>(key, backend). getVolumesFromBackend backend) (liveBackends c))),
      None)"

text \<open>
  The volumes that one backend reports successfully: the volume pointers of its
  driver's wrappers that carry no error, with the backend's name filled in.
\<close>

definition reportedVolumes :: "Backend \<Rightarrow> VolumeExternal option list" where
  "reportedVolumes backend =
     map (\<lambda>w. map_option (\<lambda>v. v\<lparr>volBackend := backendName backend\<rparr>) (wVolume w))
       (filter (\<lambda>w. wError w = None) (driverWrappers backend))"

section \<open>Orchestrator core (core package)\<close>

text \<open>
  The orchestrator itself is not among the sources at hand; its tests are. The
  definitions of this section are modelled from the specification, and follow
  the tests where the specification is silent or the tests say otherwise.
\<close>

subsection \<open>Storage attributes, pools, backends and classes\<close>

text \<open>
  Modelled from the spec: the storage attribute package (offers, requests and
  \<open>Matches\<close>) is missing. Section 4.2: the match is strictly typed; a string
  request matches a string offer that lists it, a bool request an equal bool
  offer, an int request an int offer whose range holds it.
\<close>

datatype Offer = StringOffer "string list" | BoolOffer bool | IntOffer int int

datatype Request = StringRequest string | BoolRequest bool | IntRequest int

fun Matches :: "Request \<Rightarrow> Offer \<Rightarrow> bool" where
  "Matches (StringRequest x) (StringOffer values) = (x \<in> set values)"
| "Matches (BoolRequest v) (BoolOffer w) = (v = w)"
| "Matches (IntRequest n) (IntOffer lo hi) = (lo \<le> n \<and> n \<le> hi)"
| "Matches _ _ = False"

text \<open>
  Modelled from the spec: the storage and storage class packages are missing.
  Section 3: a pool has a name, its offers and the names of the classes that
  match it; a backend has a name, a state and its pools in insertion order (its
  volumes are those of the orchestrator that name it, see below); a class has
  attribute requests, the inclusion lists \<open>Pools\<close> and \<open>AdditionalPools\<close>, and
  the pools it matches, as pairs of a backend name and a pool name.
\<close>

record StoragePool =
  poolName :: string
  poolAttributes :: "(string \<times> Offer) list"
  poolStorageClasses :: "string list"

datatype BackendState = Online | Offline | Deleting

record StorageBackend =
  sbName :: string
  sbDriverName :: string
  sbState :: BackendState
  sbProtocol :: Protocol
  sbPrefix :: string
  sbStorage :: "StoragePool list"

record StorageClassConfig =
  scName :: string
  scAttributes :: "(string \<times> Request) list"
  scPools :: "(string \<times> string list) list"
  scAdditionalPools :: "(string \<times> string list) list"

record StorageClass =
  scConfig :: StorageClassConfig
  scMatched :: "(string \<times> string) list"

text \<open>
  Modelled from the spec: \<open>StorageClass.Matches\<close> is missing. Section 3, match
  predicate for pool \<open>p\<close> on backend \<open>b\<close>: the \<open>Pools\<close> filter, the \<open>Attributes\<close>
  filter (a missing attribute is a mismatch), and the union with
  \<open>AdditionalPools\<close>. The two filters reject nothing when their field is empty;
  they accept a pool by themselves only for a class that has a \<open>Pools\<close> or an
  \<open>Attributes\<close> field or no field at all: a class that has only
  \<open>AdditionalPools\<close> matches the listed pools and no other (the cases
  \<open>additionalPools\<close> and \<open>additionalPoolsNoMatch\<close> of
  \<open>TestAddStorageClassVolumes\<close>).
\<close>

definition listedIn :: "(string \<times> string list) list \<Rightarrow> string \<Rightarrow> string \<Rightarrow> bool" where
  "listedIn pools backend pool =
     (case map_of pools backend of None \<Rightarrow> False | Some names \<Rightarrow> pool \<in> set names)"

definition poolsFilter :: "StorageClassConfig \<Rightarrow> string \<Rightarrow> StoragePool \<Rightarrow> bool" where
  "poolsFilter c backend pool = (scPools c = [] \<or> listedIn (scPools c) backend (poolName pool))"

definition attributesFilter :: "StorageClassConfig \<Rightarrow> StoragePool \<Rightarrow> bool" where
  "attributesFilter c pool =
     list_all (\<lambda>(attr, req). case map_of (poolAttributes pool) attr of
                                None \<Rightarrow> False
                              | Some offer \<Rightarrow> Matches req offer)
       (scAttributes c)"

definition classMatches :: "StorageClassConfig \<Rightarrow> string \<Rightarrow> StoragePool \<Rightarrow> bool" where
  "classMatches c backend pool =
     (listedIn (scAdditionalPools c) backend (poolName pool)
      \<or> (\<not> (scAdditionalPools c \<noteq> [] \<and> scAttributes c = [] \<and> scPools c = [])
         \<and> poolsFilter c backend pool \<and> attributesFilter c pool))"

text \<open>
  Modelled from the spec: matching a class against a backend
  (\<open>CheckAndAddBackend\<close>) is missing. Section 4.1: the pools are scanned and the
  matches recorded on both sides. A backend that is not online takes no part:
  \<open>TestBackendUpdateAndDelete\<close> requires that a class added after a backend
  went offline does not list that backend.
\<close>

definition matchingPools :: "StorageClassConfig \<Rightarrow> StorageBackend \<Rightarrow> (string \<times> string) list" where
  "matchingPools c backend =
     (if sbState backend = Online
      then map (\<lambda>pool. (sbName backend, poolName pool))
             (filter (classMatches c (sbName backend)) (sbStorage backend))
      else [])"

definition recordPool :: "StorageClassConfig \<Rightarrow> StorageBackend \<Rightarrow> StoragePool \<Rightarrow> StoragePool" where
  "recordPool c backend pool =
     (if sbState backend = Online \<and> classMatches c (sbName backend) pool
      then pool\<lparr>poolStorageClasses := poolStorageClasses pool @ [scName c]\<rparr>
      else pool)"

definition recordClass :: "StorageClassConfig \<Rightarrow> StorageBackend \<Rightarrow> StorageBackend" where
  "recordClass c backend = backend\<lparr>sbStorage := map (recordPool c backend) (sbStorage backend)\<rparr>"

subsection \<open>Volumes, the journal and the persistent store\<close>

text \<open>
  Modelled from the spec: section 3 (volume, volume transaction, node) and
  section 4.6 (the durable store). The store keeps backends, classes, volumes,
  nodes and the journal of volume transactions.
\<close>

record Volume =
  vConfig :: VolumeConfig
  vBackendName :: string
  vPool :: string
  vOrphaned :: bool

datatype VolumeOperation =
    AddVolumeOp
  | DeleteVolumeOp
  | ResizeVolumeOp
  | ImportVolumeOp
  | AddSnapshotOp
  | DeleteSnapshotOp

record VolumeTransaction =
  txnOp :: VolumeOperation
  txnConfig :: VolumeConfig

record Node =
  nodeName :: string
  nodeIQN :: string
  nodeIPs :: "string list"

record Store =
  stBackends :: "StorageBackend list"
  stClasses :: "StorageClassConfig list"
  stVolumes :: "Volume list"
  stNodes :: "Node list"
  stTransactions :: "VolumeTransaction list"

text \<open>
  Section 7: the error kinds of the core. Section 4.7: the calls the core makes
  on a backend's driver, which the model logs with the backend's name.
\<close>

datatype core_error =
    NotReadyErr
  | BootstrapErr
  | NotFoundErr
  | VolumeExistsErr
  | InvalidInputErr
  | InProgressErr
  | UnrecoverableErr
  | NotSupportedErr

datatype driver_call =
    CreateCall string string string
  | CreateCloneCall string string string
  | DestroyCall string string
  | PublishCall string string
  | CreateSnapshotCall string string string
  | CreateFromSnapshotCall string string string
  | AttachCall string string string
  | DetachCall string string string

text \<open>
  Section 2 and 4.1: the orchestrator owns the graph of backends, classes,
  volumes and nodes, the store client, and the flag \<open>bootstrapped\<close>. Section 3
  keeps each volume in two maps that must agree; the model keeps it once, and
  the volumes of a backend are those that name it.
\<close>

record TridentOrchestrator =
  bootstrapped :: bool
  coreBackends :: "StorageBackend list"
  coreClasses :: "StorageClass list"
  coreVolumes :: "Volume list"
  coreNodes :: "Node list"
  storeClient :: Store
  driverLog :: "driver_call list"

definition findBackend :: "string \<Rightarrow> StorageBackend list \<Rightarrow> StorageBackend option" where
  "findBackend name bs = find (\<lambda>b. sbName b = name) bs"

definition findClass :: "string \<Rightarrow> StorageClass list \<Rightarrow> StorageClass option" where
  "findClass name cs = find (\<lambda>c. scName (scConfig c) = name) cs"

definition findVolume :: "string \<Rightarrow> Volume list \<Rightarrow> Volume option" where
  "findVolume name vs = find (\<lambda>v. cfgName (vConfig v) = name) vs"

definition backendVolumes :: "TridentOrchestrator \<Rightarrow> string \<Rightarrow> Volume list" where
  "backendVolumes orch backend = filter (\<lambda>v. vBackendName v = backend) (coreVolumes orch)"

text \<open>
  Section 3: the internal name is deterministic from the name, salted by the
  backend's prefix (the driver's \<open>GetInternalVolumeName\<close>).
\<close>

definition GetInternalVolumeName :: "StorageBackend \<Rightarrow> string \<Rightarrow> string" where
  "GetInternalVolumeName backend name = sbPrefix backend @ name"

subsection \<open>The durable store client\<close>

text \<open>
  Modelled from the spec: the durable client is missing. Section 4.6 gives its
  contract: add, get, update and delete for each kind of record, one key per
  record (section 6: the name, or the operation and the name for a
  transaction). Adding under a key that is taken replaces the record in place.
\<close>

fun upsert :: "('a \<Rightarrow> 'k) \<Rightarrow> 'a \<Rightarrow> 'a list \<Rightarrow> 'a list" where
  "upsert key x [] = [x]"
| "upsert key x (y # ys) = (if key y = key x then x # ys else y # upsert key x ys)"

definition volumeName :: "Volume \<Rightarrow> string" where
  "volumeName v = cfgName (vConfig v)"

definition txnKey :: "VolumeTransaction \<Rightarrow> VolumeOperation \<times> string" where
  "txnKey t = (txnOp t, cfgName (txnConfig t))"

definition Store_AddBackend :: "StorageBackend \<Rightarrow> Store \<Rightarrow> Store" where
  "Store_AddBackend b st = st\<lparr>stBackends := upsert sbName b (stBackends st)\<rparr>"

definition Store_DeleteBackend :: "string \<Rightarrow> Store \<Rightarrow> Store" where
  "Store_DeleteBackend name st = st\<lparr>stBackends := filter (\<lambda>b. sbName b \<noteq> name) (stBackends st)\<rparr>"

definition Store_AddStorageClass :: "StorageClassConfig \<Rightarrow> Store \<Rightarrow> Store" where
  "Store_AddStorageClass c st = st\<lparr>stClasses := upsert scName c (stClasses st)\<rparr>"

definition Store_DeleteStorageClass :: "string \<Rightarrow> Store \<Rightarrow> Store" where
  "Store_DeleteStorageClass name st = st\<lparr>stClasses := filter (\<lambda>c. scName c \<noteq> name) (stClasses st)\<rparr>"

definition Store_AddVolume :: "Volume \<Rightarrow> Store \<Rightarrow> Store" where
  "Store_AddVolume v st = st\<lparr>stVolumes := upsert volumeName v (stVolumes st)\<rparr>"

definition Store_DeleteVolume :: "string \<Rightarrow> Store \<Rightarrow> Store" where
  "Store_DeleteVolume name st = st\<lparr>stVolumes := filter (\<lambda>v. volumeName v \<noteq> name) (stVolumes st)\<rparr>"

definition Store_AddNode :: "Node \<Rightarrow> Store \<Rightarrow> Store" where
  "Store_AddNode n st = st\<lparr>stNodes := upsert nodeName n (stNodes st)\<rparr>"

definition Store_DeleteNode :: "string \<Rightarrow> Store \<Rightarrow> Store" where
  "Store_DeleteNode name st = st\<lparr>stNodes := filter (\<lambda>n. nodeName n \<noteq> name) (stNodes st)\<rparr>"

definition Store_AddVolumeTransaction :: "VolumeTransaction \<Rightarrow> Store \<Rightarrow> Store" where
  "Store_AddVolumeTransaction t st = st\<lparr>stTransactions := upsert txnKey t (stTransactions st)\<rparr>"

definition Store_DeleteVolumeTransaction :: "VolumeTransaction \<Rightarrow> Store \<Rightarrow> Store" where
  "Store_DeleteVolumeTransaction t st =
     st\<lparr>stTransactions := filter (\<lambda>u. txnKey u \<noteq> txnKey t) (stTransactions st)\<rparr>"

subsection \<open>The driver\<close>

text \<open>
  Modelled from the spec: the drivers are missing. Section 4.7: the core asks a
  backend's driver to create, clone and destroy, and tells \<open>VolumeExists\<close> (with
  the size of the volume found) from the other errors. The driver is a function
  from the call to its outcome; the orchestrator logs every call it makes.
\<close>

datatype driver_result = DriverOK | DriverVolumeExists string | DriverError core_error

type_synonym driver = "driver_call \<Rightarrow> driver_result"

type_synonym 'a core_result = "(core_error + 'a) \<times> TridentOrchestrator"

subsection \<open>Public operations\<close>

text \<open>
  Modelled from the spec: section 4.1, "until then all public ops fail with
  NotReady". Every public operation below is its body under this guard.
\<close>

definition whenReady :: "(TridentOrchestrator \<Rightarrow> 'a core_result) \<Rightarrow> TridentOrchestrator \<Rightarrow> 'a core_result" where
  "whenReady body orch = (if bootstrapped orch then body orch else (Inl NotReadyErr, orch))"

text \<open>
  Modelled from the spec: \<open>AddBackend\<close>, sections 4.1 and 4.4. The configuration
  names the backend and its driver (\<open>storageDriverName\<close>, section 6) and lists
  its pools. The backend is new and online, or
  replaces the one of its name in place; every class is matched against the new
  pools, on both sides; a volume of the backend whose pool is gone is orphaned;
  the record is persisted. The initialisation of the driver, which may fail, is
  not part of the model.
\<close>

record BackendConfig =
  bcName :: string
  bcDriverName :: string
  bcProtocol :: Protocol
  bcPrefix :: string
  bcPools :: "(string \<times> (string \<times> Offer) list) list"

definition newBackend :: "BackendConfig \<Rightarrow> StorageBackend" where
  "newBackend cfg =
     \<lparr> sbName = bcName cfg, sbDriverName = bcDriverName cfg, sbState = Online,
       sbProtocol = bcProtocol cfg,
       sbPrefix = bcPrefix cfg,
       sbStorage = map (\<lambda>(name, attrs).
                     \<lparr> poolName = name, poolAttributes = attrs, poolStorageClasses = [] \<rparr>)
                   (bcPools cfg) \<rparr>"

definition removeBackendFromClass :: "string \<Rightarrow> StorageClass \<Rightarrow> StorageClass" where
  "removeBackendFromClass name sc =
     sc\<lparr>scMatched := filter (\<lambda>(backend, pool). backend \<noteq> name) (scMatched sc)\<rparr>"

definition rematchClass :: "StorageBackend \<Rightarrow> StorageClass \<Rightarrow> StorageClass" where
  "rematchClass b sc =
     sc\<lparr>scMatched := filter (\<lambda>(backend, pool). backend \<noteq> sbName b) (scMatched sc)
                       @ matchingPools (scConfig sc) b\<rparr>"

definition markOrphaned :: "StorageBackend \<Rightarrow> Volume \<Rightarrow> Volume" where
  "markOrphaned b v =
     (if vBackendName v = sbName b
      then v\<lparr>vOrphaned := (vPool v \<notin> set (map poolName (sbStorage b)))\<rparr>
      else v)"

definition AddBackend :: "BackendConfig \<Rightarrow> TridentOrchestrator \<Rightarrow> StorageBackend core_result" where
  "AddBackend cfg = whenReady (\<lambda>orch.
     (let b = foldl (\<lambda>b sc. recordClass (scConfig sc) b) (newBackend cfg) (coreClasses orch)
      in (Inr b,
          orch\<lparr>coreBackends := upsert sbName b (coreBackends orch),
               coreClasses := map (rematchClass b) (coreClasses orch),
               coreVolumes := map (markOrphaned b) (coreVolumes orch),
               storeClient := Store_AddBackend b (storeClient orch)\<rparr>)))"

definition GetBackend :: "string \<Rightarrow> TridentOrchestrator \<Rightarrow> StorageBackend core_result" where
  "GetBackend name = whenReady (\<lambda>orch.
     (case findBackend name (coreBackends orch) of
        None \<Rightarrow> (Inl NotFoundErr, orch)
      | Some b \<Rightarrow> (Inr b, orch)))"

definition ListBackends :: "TridentOrchestrator \<Rightarrow> StorageBackend list core_result" where
  "ListBackends = whenReady (\<lambda>orch. (Inr (coreBackends orch), orch))"

text \<open>
  Modelled from the spec: \<open>DeleteBackend\<close>, section 4.1. A backend in use goes
  offline: it stays in memory with its volumes, and the new state is persisted;
  a backend with no volume is removed from memory and from the store. Either
  way the classes lose its pools (\<open>TestBackendUpdateAndDelete\<close>: "Offline backend
  not removed from storage pool in storage class").
\<close>

definition DeleteBackend :: "string \<Rightarrow> TridentOrchestrator \<Rightarrow> unit core_result" where
  "DeleteBackend name = whenReady (\<lambda>orch.
     (case findBackend name (coreBackends orch) of
        None \<Rightarrow> (Inl NotFoundErr, orch)
      | Some b \<Rightarrow>
          if backendVolumes orch name = []
          then (Inr (),
                orch\<lparr>coreBackends := filter (\<lambda>b. sbName b \<noteq> name) (coreBackends orch),
                     coreClasses := map (removeBackendFromClass name) (coreClasses orch),
                     storeClient := Store_DeleteBackend name (storeClient orch)\<rparr>)
          else (Inr (),
                orch\<lparr>coreBackends := map (\<lambda>b. if sbName b = name then b\<lparr>sbState := Offline\<rparr> else b)
                                       (coreBackends orch),
                     coreClasses := map (removeBackendFromClass name) (coreClasses orch),
                     storeClient := Store_AddBackend (b\<lparr>sbState := Offline\<rparr>) (storeClient orch)\<rparr>)))"

text \<open>
  Modelled from the spec: \<open>AddStorageClass\<close>, section 4.1: scans all current
  pools, records the matches on both sides, persists the class and returns it
  with the matched pairs of backend and pool.
\<close>

definition matchClass :: "StorageClassConfig \<Rightarrow> TridentOrchestrator \<Rightarrow> StorageClass" where
  "matchClass c orch =
     \<lparr> scConfig = c, scMatched = concat (map (matchingPools c) (coreBackends orch)) \<rparr>"

definition installClass :: "StorageClassConfig \<Rightarrow> TridentOrchestrator \<Rightarrow> TridentOrchestrator" where
  "installClass c orch =
     orch\<lparr>coreClasses := upsert (\<lambda>k. scName (scConfig k)) (matchClass c orch) (coreClasses orch),
          coreBackends := map (recordClass c) (coreBackends orch)\<rparr>"

definition AddStorageClass :: "StorageClassConfig \<Rightarrow> TridentOrchestrator \<Rightarrow> StorageClass core_result" where
  "AddStorageClass c = whenReady (\<lambda>orch.
     (Inr (matchClass c orch),
      (installClass c orch)\<lparr>storeClient := Store_AddStorageClass c (storeClient orch)\<rparr>))"

definition GetStorageClass :: "string \<Rightarrow> TridentOrchestrator \<Rightarrow> StorageClass core_result" where
  "GetStorageClass name = whenReady (\<lambda>orch.
     (case findClass name (coreClasses orch) of
        None \<Rightarrow> (Inl NotFoundErr, orch)
      | Some sc \<Rightarrow> (Inr sc, orch)))"

definition ListStorageClasses :: "TridentOrchestrator \<Rightarrow> StorageClass list core_result" where
  "ListStorageClasses = whenReady (\<lambda>orch. (Inr (coreClasses orch), orch))"

text \<open>
  Modelled from the spec: \<open>DeleteStorageClass\<close>, section 4.1: removes the class
  from every pool's list and from the store; the volumes are not affected.
\<close>

definition forgetClass :: "string \<Rightarrow> StorageBackend \<Rightarrow> StorageBackend" where
  "forgetClass name b =
     b\<lparr>sbStorage := map (\<lambda>pool. pool\<lparr>poolStorageClasses := filter (\<lambda>c. c \<noteq> name) (poolStorageClasses pool)\<rparr>)
                      (sbStorage b)\<rparr>"

definition DeleteStorageClass :: "string \<Rightarrow> TridentOrchestrator \<Rightarrow> unit core_result" where
  "DeleteStorageClass name = whenReady (\<lambda>orch.
     (case findClass name (coreClasses orch) of
        None \<Rightarrow> (Inl NotFoundErr, orch)
      | Some sc \<Rightarrow>
          (Inr (),
           orch\<lparr>coreClasses := filter (\<lambda>k. scName (scConfig k) \<noteq> name) (coreClasses orch),
                coreBackends := map (forgetClass name) (coreBackends orch),
                storeClient := Store_DeleteStorageClass name (storeClient orch)\<rparr>)))"

text \<open>
  Modelled from the spec: \<open>AddVolume\<close>, section 4.3. Validate (the class
  exists, the name is free, the size parses, the class has a matched pool of a
  compatible protocol); journal, or \<open>InProgress\<close> when the journal has the
  entry; place on the first matched pool whose backend is online and whose
  driver accepts (section 4.2), where \<open>VolumeExists\<close> from the driver counts as
  success iff the size found is at least the size asked for; commit to memory
  and to the store and clear the journal; on failure clear the journal and
  return the last driver error.
\<close>

definition protocolCompatible :: "Protocol \<Rightarrow> Protocol \<Rightarrow> bool" where
  "protocolCompatible requested offered = (requested = ProtocolAny \<or> requested = offered)"

definition candidatePools :: "TridentOrchestrator \<Rightarrow> StorageClass \<Rightarrow> Protocol \<Rightarrow> (StorageBackend \<times> string) list" where
  "candidatePools orch sc protocol =
     concat (map (\<lambda>(backend, pool).
               (case findBackend backend (coreBackends orch) of
                  None \<Rightarrow> []
                | Some b \<Rightarrow> if protocolCompatible protocol (sbProtocol b) then [(b, pool)] else []))
             (scMatched sc))"

definition placedVolume :: "VolumeConfig \<Rightarrow> StorageBackend \<Rightarrow> string \<Rightarrow> Volume" where
  "placedVolume cfg b pool =
     \<lparr> vConfig = cfg\<lparr>cfgInternalName := GetInternalVolumeName b (cfgName cfg)\<rparr>,
       vBackendName = sbName b, vPool = pool, vOrphaned = False \<rparr>"

fun place :: "driver \<Rightarrow> VolumeConfig \<Rightarrow> (StorageBackend \<times> string) list \<Rightarrow> driver_call list \<Rightarrow> core_error
                \<Rightarrow> (core_error + Volume) \<times> driver_call list" where
  "place drv cfg [] calls err = (Inl err, calls)"
| "place drv cfg ((b, pool) # rest) calls err =
     (if sbState b \<noteq> Online then place drv cfg rest calls err
      else
        (case drv (CreateCall (sbName b) pool (cfgName cfg)) of
           DriverOK \<Rightarrow>
             (Inr (placedVolume cfg b pool), calls @ [CreateCall (sbName b) pool (cfgName cfg)])
         | DriverVolumeExists found \<Rightarrow>
             if fst (ParseInt (cfgSize cfg)) \<le> fst (ParseInt found)
             then (Inr (placedVolume cfg b pool), calls @ [CreateCall (sbName b) pool (cfgName cfg)])
             else place drv cfg rest (calls @ [CreateCall (sbName b) pool (cfgName cfg)]) VolumeExistsErr
         | DriverError e \<Rightarrow>
             place drv cfg rest (calls @ [CreateCall (sbName b) pool (cfgName cfg)]) e))"

definition journalled :: "VolumeOperation \<Rightarrow> string \<Rightarrow> TridentOrchestrator \<Rightarrow> bool" where
  "journalled op name orch = ((op, name) \<in> set (map txnKey (stTransactions (storeClient orch))))"

definition AddVolume :: "driver \<Rightarrow> VolumeConfig \<Rightarrow> TridentOrchestrator \<Rightarrow> Volume core_result" where
  "AddVolume drv cfg = whenReady (\<lambda>orch.
     (case findClass (cfgStorageClass cfg) (coreClasses orch) of
        None \<Rightarrow> (Inl InvalidInputErr, orch)
      | Some sc \<Rightarrow>
          if findVolume (cfgName cfg) (coreVolumes orch) \<noteq> None then (Inl VolumeExistsErr, orch)
          else if snd (ParseInt (cfgSize cfg)) then (Inl InvalidInputErr, orch)
          else if candidatePools orch sc (cfgProtocol cfg) = [] then (Inl InvalidInputErr, orch)
          else if journalled AddVolumeOp (cfgName cfg) orch then (Inl InProgressErr, orch)
          else
            (case place drv cfg (candidatePools orch sc (cfgProtocol cfg)) (driverLog orch) InvalidInputErr of
               (Inl e, calls) \<Rightarrow>
                 (Inl e,
                  orch\<lparr>driverLog := calls,
                       storeClient :=
                         Store_DeleteVolumeTransaction \<lparr>txnOp = AddVolumeOp, txnConfig = cfg\<rparr>
                           (Store_AddVolumeTransaction \<lparr>txnOp = AddVolumeOp, txnConfig = cfg\<rparr>
                             (storeClient orch))\<rparr>)
             | (Inr v, calls) \<Rightarrow>
                 (Inr v,
                  orch\<lparr>driverLog := calls,
                       coreVolumes := coreVolumes orch @ [v],
                       storeClient :=
                         Store_DeleteVolumeTransaction \<lparr>txnOp = AddVolumeOp, txnConfig = cfg\<rparr>
                           (Store_AddVolume v
                             (Store_AddVolumeTransaction \<lparr>txnOp = AddVolumeOp, txnConfig = cfg\<rparr>
                               (storeClient orch)))\<rparr>))))"

text \<open>
  Modelled from the spec: \<open>CloneVolume\<close>, sections 4.1 and 4.3: the clone is
  placed on the backend of its source, by that backend's driver, with the
  journal, commit and clear of \<open>AddVolume\<close>. An offline backend admits no new
  volume (section 3).
\<close>

definition CloneVolume :: "driver \<Rightarrow> VolumeConfig \<Rightarrow> TridentOrchestrator \<Rightarrow> Volume core_result" where
  "CloneVolume drv cfg = whenReady (\<lambda>orch.
     if findVolume (cfgName cfg) (coreVolumes orch) \<noteq> None then (Inl VolumeExistsErr, orch)
     else
       (case findVolume (cfgCloneSourceVolume cfg) (coreVolumes orch) of
          None \<Rightarrow> (Inl NotFoundErr, orch)
        | Some source \<Rightarrow>
            (case findBackend (vBackendName source) (coreBackends orch) of
               None \<Rightarrow> (Inl NotFoundErr, orch)
             | Some b \<Rightarrow>
                 if sbState b \<noteq> Online then (Inl InvalidInputErr, orch)
                 else if journalled AddVolumeOp (cfgName cfg) orch then (Inl InProgressErr, orch)
                 else
                   (case drv (CreateCloneCall (sbName b) (cfgCloneSourceVolume cfg) (cfgName cfg)) of
                      DriverOK \<Rightarrow>
                        (Inr (placedVolume cfg b (vPool source)),
                         orch\<lparr>driverLog := driverLog orch
                                 @ [CreateCloneCall (sbName b) (cfgCloneSourceVolume cfg) (cfgName cfg)],
                              coreVolumes := coreVolumes orch @ [placedVolume cfg b (vPool source)],
                              storeClient :=
                                Store_DeleteVolumeTransaction \<lparr>txnOp = AddVolumeOp, txnConfig = cfg\<rparr>
                                  (Store_AddVolume (placedVolume cfg b (vPool source))
                                    (Store_AddVolumeTransaction \<lparr>txnOp = AddVolumeOp, txnConfig = cfg\<rparr>
                                      (storeClient orch)))\<rparr>)
                    | DriverVolumeExists found \<Rightarrow>
                        (Inl VolumeExistsErr,
                         orch\<lparr>driverLog := driverLog orch
                                 @ [CreateCloneCall (sbName b) (cfgCloneSourceVolume cfg) (cfgName cfg)]\<rparr>)
                    | DriverError e \<Rightarrow>
                        (Inl e,
                         orch\<lparr>driverLog := driverLog orch
                                 @ [CreateCloneCall (sbName b) (cfgCloneSourceVolume cfg) (cfgName cfg)]\<rparr>)))))"

definition GetVolume :: "string \<Rightarrow> TridentOrchestrator \<Rightarrow> Volume core_result" where
  "GetVolume name = whenReady (\<lambda>orch.
     (case findVolume name (coreVolumes orch) of
        None \<Rightarrow> (Inl NotFoundErr, orch)
      | Some v \<Rightarrow> (Inr v, orch)))"

definition ListVolumes :: "TridentOrchestrator \<Rightarrow> Volume list core_result" where
  "ListVolumes = whenReady (\<lambda>orch. (Inr (coreVolumes orch), orch))"

definition ListVolumesByBackend :: "string \<Rightarrow> TridentOrchestrator \<Rightarrow> Volume list core_result" where
  "ListVolumesByBackend name = whenReady (\<lambda>orch.
     (case findBackend name (coreBackends orch) of
        None \<Rightarrow> (Inl NotFoundErr, orch)
      | Some b \<Rightarrow> (Inr (backendVolumes orch name), orch)))"

text \<open>
  Modelled from the spec: \<open>DeleteVolume\<close>, section 4.3. Look the volume up;
  journal; ask the driver to destroy the internal name, where \<open>NotFound\<close> from
  the driver counts as success and another error is surfaced with the journal
  kept (section 7); remove the volume from memory and from the store and clear
  the journal; if the owning backend is offline and has no volume left, remove
  it from memory and from the store.
\<close>

definition removeEmptyOffline :: "string \<Rightarrow> TridentOrchestrator \<Rightarrow> TridentOrchestrator" where
  "removeEmptyOffline name orch =
     (case findBackend name (coreBackends orch) of
        None \<Rightarrow> orch
      | Some b \<Rightarrow>
          if sbState b = Offline \<and> backendVolumes orch name = []
          then orch\<lparr>coreBackends := filter (\<lambda>b. sbName b \<noteq> name) (coreBackends orch),
                    storeClient := Store_DeleteBackend name (storeClient orch)\<rparr>
          else orch)"

definition removeVolume :: "Volume \<Rightarrow> TridentOrchestrator \<Rightarrow> TridentOrchestrator" where
  "removeVolume v orch =
     removeEmptyOffline (vBackendName v)
       (orch\<lparr>driverLog := driverLog orch @ [DestroyCall (vBackendName v) (cfgInternalName (vConfig v))],
             coreVolumes := filter (\<lambda>w. volumeName w \<noteq> volumeName v) (coreVolumes orch),
             storeClient := Store_DeleteVolume (volumeName v) (storeClient orch)\<rparr>)"

definition DeleteVolume :: "driver \<Rightarrow> string \<Rightarrow> TridentOrchestrator \<Rightarrow> unit core_result" where
  "DeleteVolume drv name = whenReady (\<lambda>orch.
     (case findVolume name (coreVolumes orch) of
        None \<Rightarrow> (Inl NotFoundErr, orch)
      | Some v \<Rightarrow>
          (case drv (DestroyCall (vBackendName v) (cfgInternalName (vConfig v))) of
             DriverError e \<Rightarrow>
               if e = NotFoundErr
               then (Inr (),
                     (removeVolume v orch)
                       \<lparr>storeClient := Store_DeleteVolumeTransaction \<lparr>txnOp = DeleteVolumeOp, txnConfig = vConfig v\<rparr>
                                         (storeClient (removeVolume v orch))\<rparr>)
               else (Inl e,
                     orch\<lparr>driverLog := driverLog orch
                             @ [DestroyCall (vBackendName v) (cfgInternalName (vConfig v))],
                          storeClient := Store_AddVolumeTransaction
                                           \<lparr>txnOp = DeleteVolumeOp, txnConfig = vConfig v\<rparr> (storeClient orch)\<rparr>)
           | _ \<Rightarrow>
               (Inr (),
                (removeVolume v orch)
                  \<lparr>storeClient := Store_DeleteVolumeTransaction \<lparr>txnOp = DeleteVolumeOp, txnConfig = vConfig v\<rparr>
                                    (storeClient (removeVolume v orch))\<rparr>))))"

text \<open>
  Modelled from the spec: \<open>ReloadVolumes\<close>, section 4.1: rebuilds the volume
  portion of the graph from the store and the live backends; a stored volume
  whose backend is missing is a structural inconsistency.
\<close>

definition loadVolumes :: "StorageBackend list \<Rightarrow> Volume list \<Rightarrow> Volume list option" where
  "loadVolumes bs vs =
     (if list_all (\<lambda>v. findBackend (vBackendName v) bs \<noteq> None) vs
      then Some (foldl (\<lambda>acc v. upsert volumeName v acc) [] vs)
      else None)"

definition ReloadVolumes :: "TridentOrchestrator \<Rightarrow> unit core_result" where
  "ReloadVolumes = whenReady (\<lambda>orch.
     (case loadVolumes (coreBackends orch) (stVolumes (storeClient orch)) of
        None \<Rightarrow> (Inl BootstrapErr, orch)
      | Some vs \<Rightarrow> (Inr (), orch\<lparr>coreVolumes := vs\<rparr>)))"

text \<open>
  Modelled from the spec: the node operations, section 4.1: pass-through to the
  store, with a cache in memory.
\<close>

definition AddNode :: "Node \<Rightarrow> TridentOrchestrator \<Rightarrow> unit core_result" where
  "AddNode n = whenReady (\<lambda>orch.
     (Inr (), orch\<lparr>coreNodes := upsert nodeName n (coreNodes orch),
                   storeClient := Store_AddNode n (storeClient orch)\<rparr>))"

definition GetNode :: "string \<Rightarrow> TridentOrchestrator \<Rightarrow> Node core_result" where
  "GetNode name = whenReady (\<lambda>orch.
     (case find (\<lambda>n. nodeName n = name) (coreNodes orch) of
        None \<Rightarrow> (Inl NotFoundErr, orch)
      | Some n \<Rightarrow> (Inr n, orch)))"

definition ListNodes :: "TridentOrchestrator \<Rightarrow> Node list core_result" where
  "ListNodes = whenReady (\<lambda>orch. (Inr (coreNodes orch), orch))"

definition DeleteNode :: "string \<Rightarrow> TridentOrchestrator \<Rightarrow> unit core_result" where
  "DeleteNode name = whenReady (\<lambda>orch.
     (case find (\<lambda>n. nodeName n = name) (coreNodes orch) of
        None \<Rightarrow> (Inl NotFoundErr, orch)
      | Some n \<Rightarrow>
          (Inr (), orch\<lparr>coreNodes := filter (\<lambda>n. nodeName n \<noteq> name) (coreNodes orch),
                        storeClient := Store_DeleteNode name (storeClient orch)\<rparr>)))"

subsection \<open>Bootstrap and the reconciliation of the journal\<close>

text \<open>
  Modelled from the spec: \<open>NewTridentOrchestrator\<close> and \<open>Bootstrap\<close>, sections 4.1
  and 4.5. The graph is rebuilt from the store in the order backends, classes,
  volumes, nodes, transactions. A backend comes back with the state it was
  stored with, and the classes are matched against the backends as they are when
  a class is added. A stored volume whose backend is missing is the structural
  inconsistency that ends Bootstrap with its error.

  The residual transactions are then rolled back one by one. For \<open>AddVolume\<close>
  and \<open>DeleteVolume\<close>: when the volume is in the graph the delete is completed
  (driver, memory, store); \<open>runRecoveryTests\<close> requires this for \<open>AddVolume\<close> too,
  whose volume must be gone from the orchestrator and from the store after
  Bootstrap. When the volume is not in the graph its backend is not known:
  every online backend's driver is asked to destroy the internal name it would
  have given the volume (an offline backend admits no new volume, section 3).
  The other operations are reconciled by the driver, which the model leaves out.
  Every transaction is cleared; then the empty offline backends are removed, and
  \<open>bootstrapped\<close> is set.
\<close>

definition NewTridentOrchestrator :: "Store \<Rightarrow> TridentOrchestrator" where
  "NewTridentOrchestrator st =
     \<lparr> bootstrapped = False, coreBackends = [], coreClasses = [], coreVolumes = [],
       coreNodes = [], storeClient = st, driverLog = [] \<rparr>"

definition bootstrapBackends :: "StorageBackend list \<Rightarrow> StorageBackend list" where
  "bootstrapBackends stored =
     foldl (\<lambda>acc b. upsert sbName
                      (b\<lparr>sbStorage := map (\<lambda>pool. pool\<lparr>poolStorageClasses := []\<rparr>) (sbStorage b)\<rparr>) acc)
       [] stored"

definition bootstrapStorageClasses :: "StorageClassConfig list \<Rightarrow> TridentOrchestrator \<Rightarrow> TridentOrchestrator" where
  "bootstrapStorageClasses stored orch = foldl (\<lambda>acc c. installClass c acc) orch stored"

definition destroyEverywhere :: "string \<Rightarrow> TridentOrchestrator \<Rightarrow> TridentOrchestrator" where
  "destroyEverywhere name orch =
     orch\<lparr>driverLog := driverLog orch
             @ map (\<lambda>b. DestroyCall (sbName b) (GetInternalVolumeName b name))
                 (filter (\<lambda>b. sbState b = Online) (coreBackends orch))\<rparr>"

definition completeDelete :: "string \<Rightarrow> TridentOrchestrator \<Rightarrow> TridentOrchestrator" where
  "completeDelete name orch =
     (case findVolume name (coreVolumes orch) of
        None \<Rightarrow> destroyEverywhere name orch
      | Some v \<Rightarrow> removeVolume v orch)"

definition rollBackTransaction :: "VolumeTransaction \<Rightarrow> TridentOrchestrator \<Rightarrow> TridentOrchestrator" where
  "rollBackTransaction t orch =
     (if txnOp t = AddVolumeOp \<or> txnOp t = DeleteVolumeOp
      then (completeDelete (cfgName (txnConfig t)) orch)
             \<lparr>storeClient := Store_DeleteVolumeTransaction t
                               (storeClient (completeDelete (cfgName (txnConfig t)) orch))\<rparr>
      else orch\<lparr>storeClient := Store_DeleteVolumeTransaction t (storeClient orch)\<rparr>)"

definition bootstrapVolTxns :: "VolumeTransaction list \<Rightarrow> TridentOrchestrator \<Rightarrow> TridentOrchestrator" where
  "bootstrapVolTxns txns orch = foldl (\<lambda>acc t. rollBackTransaction t acc) orch txns"

definition sweepOfflineBackends :: "TridentOrchestrator \<Rightarrow> TridentOrchestrator" where
  "sweepOfflineBackends orch =
     foldl (\<lambda>acc b. removeEmptyOffline (sbName b) acc) orch (coreBackends orch)"

definition Bootstrap :: "TridentOrchestrator \<Rightarrow> unit core_result" where
  "Bootstrap orch =
     (case loadVolumes (bootstrapBackends (stBackends (storeClient orch))) (stVolumes (storeClient orch)) of
        None \<Rightarrow> (Inl BootstrapErr, orch)
      | Some vs \<Rightarrow>
          (Inr (),
           (sweepOfflineBackends
             (bootstrapVolTxns (stTransactions (storeClient orch))
               ((bootstrapStorageClasses (stClasses (storeClient orch))
                  (orch\<lparr>coreBackends := bootstrapBackends (stBackends (storeClient orch)),
                        coreClasses := []\<rparr>))
                \<lparr>coreVolumes := vs, coreNodes := stNodes (storeClient orch)\<rparr>)))
           \<lparr>bootstrapped := True\<rparr>))"

subsection \<open>Operations delegated to the driver\<close>

text \<open>
  Modelled from the spec: \<open>PublishVolume\<close>, \<open>CreateVolumeSnapshot\<close> and
  \<open>CreateVolumeFromSnapshot\<close>, section 4.1: "journal, delegate, persist". The
  volume is looked up, the call goes to the driver of its backend and is logged,
  and an error of the driver is surfaced. A snapshot is known by its name and
  the name of its volume; the store has no record of that kind (section 4.6),
  so what is persisted is the journal entry, and the new volume for
  \<open>CreateVolumeFromSnapshot\<close>, which is placed like a clone on the backend of the
  snapshot's volume.
\<close>

type_synonym PublishInfo = "(string \<times> string) list"

record SnapshotExternal =
  snapName :: string
  snapVolume :: string

definition delegate :: "driver \<Rightarrow> driver_call \<Rightarrow> TridentOrchestrator \<Rightarrow> unit core_result" where
  "delegate drv call orch =
     (case drv call of DriverError e \<Rightarrow> Inl e | _ \<Rightarrow> Inr (),
      orch\<lparr>driverLog := driverLog orch @ [call]\<rparr>)"

definition PublishVolume :: "driver \<Rightarrow> string \<Rightarrow> PublishInfo \<Rightarrow> TridentOrchestrator \<Rightarrow> unit core_result" where
  "PublishVolume drv name info = whenReady (\<lambda>orch.
     (case findVolume name (coreVolumes orch) of
        None \<Rightarrow> (Inl NotFoundErr, orch)
      | Some v \<Rightarrow> delegate drv (PublishCall (vBackendName v) (cfgInternalName (vConfig v))) orch))"

definition CreateVolumeSnapshot :: "driver \<Rightarrow> string \<Rightarrow> VolumeConfig \<Rightarrow> TridentOrchestrator \<Rightarrow> SnapshotExternal core_result" where
  "CreateVolumeSnapshot drv name cfg = whenReady (\<lambda>orch.
     (case findVolume (cfgName cfg) (coreVolumes orch) of
        None \<Rightarrow> (Inl NotFoundErr, orch)
      | Some v \<Rightarrow>
          if journalled AddSnapshotOp (cfgName cfg) orch then (Inl InProgressErr, orch)
          else
            (case drv (CreateSnapshotCall (vBackendName v) (cfgInternalName (vConfig v)) name) of
               DriverError e \<Rightarrow>
                 (Inl e,
                  orch\<lparr>driverLog := driverLog orch
                          @ [CreateSnapshotCall (vBackendName v) (cfgInternalName (vConfig v)) name]\<rparr>)
             | _ \<Rightarrow>
                 (Inr \<lparr> snapName = name, snapVolume = cfgName cfg \<rparr>,
                  orch\<lparr>driverLog := driverLog orch
                          @ [CreateSnapshotCall (vBackendName v) (cfgInternalName (vConfig v)) name],
                       storeClient :=
                         Store_DeleteVolumeTransaction \<lparr>txnOp = AddSnapshotOp, txnConfig = cfg\<rparr>
                           (Store_AddVolumeTransaction \<lparr>txnOp = AddSnapshotOp, txnConfig = cfg\<rparr>
                             (storeClient orch))\<rparr>))))"

definition CreateVolumeFromSnapshot :: "driver \<Rightarrow> SnapshotExternal \<Rightarrow> VolumeConfig \<Rightarrow> TridentOrchestrator \<Rightarrow> Volume core_result" where
  "CreateVolumeFromSnapshot drv snapshot cfg = whenReady (\<lambda>orch.
     if findVolume (cfgName cfg) (coreVolumes orch) \<noteq> None then (Inl VolumeExistsErr, orch)
     else
       (case findVolume (snapVolume snapshot) (coreVolumes orch) of
          None \<Rightarrow> (Inl NotFoundErr, orch)
        | Some source \<Rightarrow>
            (case findBackend (vBackendName source) (coreBackends orch) of
               None \<Rightarrow> (Inl NotFoundErr, orch)
             | Some b \<Rightarrow>
                 if sbState b \<noteq> Online then (Inl InvalidInputErr, orch)
                 else if journalled AddVolumeOp (cfgName cfg) orch then (Inl InProgressErr, orch)
                 else
                   (case drv (CreateFromSnapshotCall (sbName b) (snapName snapshot) (cfgName cfg)) of
                      DriverOK \<Rightarrow>
                        (Inr (placedVolume cfg b (vPool source)),
                         orch\<lparr>driverLog := driverLog orch
                                 @ [CreateFromSnapshotCall (sbName b) (snapName snapshot) (cfgName cfg)],
                              coreVolumes := coreVolumes orch @ [placedVolume cfg b (vPool source)],
                              storeClient :=
                                Store_DeleteVolumeTransaction \<lparr>txnOp = AddVolumeOp, txnConfig = cfg\<rparr>
                                  (Store_AddVolume (placedVolume cfg b (vPool source))
                                    (Store_AddVolumeTransaction \<lparr>txnOp = AddVolumeOp, txnConfig = cfg\<rparr>
                                      (storeClient orch)))\<rparr>)
                    | DriverVolumeExists found \<Rightarrow>
                        (Inl VolumeExistsErr,
                         orch\<lparr>driverLog := driverLog orch
                                 @ [CreateFromSnapshotCall (sbName b) (snapName snapshot) (cfgName cfg)]\<rparr>)
                    | DriverError e \<Rightarrow>
                        (Inl e,
                         orch\<lparr>driverLog := driverLog orch
                                 @ [CreateFromSnapshotCall (sbName b) (snapName snapshot) (cfgName cfg)]\<rparr>)))))"

text \<open>
  Modelled from the spec: the operations that only \<open>TestOrchestratorNotReady\<close>
  names (\<open>GetDriverTypeForVolume\<close>, \<open>GetVolumeType\<close>, \<open>ListVolumesByPlugin\<close>,
  \<open>AttachVolume\<close>, \<open>DetachVolume\<close>, \<open>ListVolumeSnapshots\<close>). The spec does not
  describe them; the test gives their names, arguments and results, and that
  each fails with NotReady before Bootstrap. Below the guard of section 4.1 the
  model gives each the least its name and signature ask for: the driver name of
  the volume's backend, the volume type that goes with that driver (by the
  driver names of section 6), the volumes on backends of a driver, a call to the
  driver of the volume's backend to attach or detach, and the snapshots that
  this driver lists.
\<close>

datatype VolumeType = OntapNFS | OntapISCSI | SolidFireISCSI | ESeriesISCSI | UnknownVolumeType

type_synonym snapshot_lister = "string \<Rightarrow> string \<Rightarrow> core_error + SnapshotExternal list"

definition volumeTypeOfDriver :: "string \<Rightarrow> VolumeType" where
  "volumeTypeOfDriver name =
     (if name = ''ontap-nas'' \<or> name = ''ontap-nas-qtree'' \<or> name = ''ontap-nas-flexgroup'' then OntapNFS
      else if name = ''ontap-san'' then OntapISCSI
      else if name = ''solidfire-san'' then SolidFireISCSI
      else if name = ''eseries-iscsi'' then ESeriesISCSI
      else UnknownVolumeType)"

definition GetDriverTypeForVolume :: "Volume \<Rightarrow> TridentOrchestrator \<Rightarrow> string core_result" where
  "GetDriverTypeForVolume vol = whenReady (\<lambda>orch.
     (case findBackend (vBackendName vol) (coreBackends orch) of
        None \<Rightarrow> (Inl NotFoundErr, orch)
      | Some b \<Rightarrow> (Inr (sbDriverName b), orch)))"

definition GetVolumeType :: "Volume \<Rightarrow> TridentOrchestrator \<Rightarrow> VolumeType core_result" where
  "GetVolumeType vol = whenReady (\<lambda>orch.
     (case findBackend (vBackendName vol) (coreBackends orch) of
        None \<Rightarrow> (Inl NotFoundErr, orch)
      | Some b \<Rightarrow> (Inr (volumeTypeOfDriver (sbDriverName b)), orch)))"

definition ListVolumesByPlugin :: "string \<Rightarrow> TridentOrchestrator \<Rightarrow> Volume list core_result" where
  "ListVolumesByPlugin plugin = whenReady (\<lambda>orch.
     (Inr (filter (\<lambda>v. case findBackend (vBackendName v) (coreBackends orch) of
                           None \<Rightarrow> False
                         | Some b \<Rightarrow> sbDriverName b = plugin)
             (coreVolumes orch)),
      orch))"

definition AttachVolume :: "driver \<Rightarrow> string \<Rightarrow> string \<Rightarrow> (string \<times> string) list \<Rightarrow> TridentOrchestrator \<Rightarrow> unit core_result" where
  "AttachVolume drv name mountpoint options = whenReady (\<lambda>orch.
     (case findVolume name (coreVolumes orch) of
        None \<Rightarrow> (Inl NotFoundErr, orch)
      | Some v \<Rightarrow>
          delegate drv (AttachCall (vBackendName v) (cfgInternalName (vConfig v)) mountpoint) orch))"

definition DetachVolume :: "driver \<Rightarrow> string \<Rightarrow> string \<Rightarrow> TridentOrchestrator \<Rightarrow> unit core_result" where
  "DetachVolume drv name mountpoint = whenReady (\<lambda>orch.
     (case findVolume name (coreVolumes orch) of
        None \<Rightarrow> (Inl NotFoundErr, orch)
      | Some v \<Rightarrow>
          delegate drv (DetachCall (vBackendName v) (cfgInternalName (vConfig v)) mountpoint) orch))"

definition ListVolumeSnapshots :: "snapshot_lister \<Rightarrow> string \<Rightarrow> TridentOrchestrator \<Rightarrow> SnapshotExternal list core_result" where
  "ListVolumeSnapshots lister name = whenReady (\<lambda>orch.
     (case findVolume name (coreVolumes orch) of
        None \<Rightarrow> (Inl NotFoundErr, orch)
      | Some v \<Rightarrow> (lister (vBackendName v) (cfgInternalName (vConfig v)), orch)))"

subsection \<open>The public operations as one interface\<close>

text \<open>
  The operations a frontend can invoke, with their arguments, and one function
  that performs any of them: the public operations of section 4.1, and those
  that \<open>TestOrchestratorNotReady\<close> calls besides.
\<close>

datatype operation =
    DoAddBackend BackendConfig
  | DoGetBackend string
  | DoListBackends
  | DoDeleteBackend string
  | DoAddStorageClass StorageClassConfig
  | DoGetStorageClass string
  | DoListStorageClasses
  | DoDeleteStorageClass string
  | DoAddVolume VolumeConfig
  | DoCloneVolume VolumeConfig
  | DoGetVolume string
  | DoListVolumes
  | DoListVolumesByBackend string
  | DoDeleteVolume string
  | DoReloadVolumes
  | DoAddNode Node
  | DoGetNode string
  | DoListNodes
  | DoDeleteNode string
  | DoPublishVolume string PublishInfo
  | DoCreateVolumeSnapshot string VolumeConfig
  | DoCreateVolumeFromSnapshot SnapshotExternal VolumeConfig
  | DoGetDriverTypeForVolume Volume
  | DoGetVolumeType Volume
  | DoListVolumesByPlugin string
  | DoAttachVolume string string "(string \<times> string) list"
  | DoDetachVolume string string
  | DoListVolumeSnapshots string

datatype reply =
    Done
  | BackendReply StorageBackend
  | BackendsReply "StorageBackend list"
  | ClassReply StorageClass
  | ClassesReply "StorageClass list"
  | VolumeReply Volume
  | VolumesReply "Volume list"
  | NodeReply Node
  | NodesReply "Node list"
  | SnapshotReply SnapshotExternal
  | SnapshotsReply "SnapshotExternal list"
  | DriverTypeReply string
  | VolumeTypeReply VolumeType

definition replying :: "('a \<Rightarrow> reply) \<Rightarrow> 'a core_result \<Rightarrow> reply core_result" where
  "replying f r = (case fst r of Inl e \<Rightarrow> Inl e | Inr x \<Rightarrow> Inr (f x), snd r)"

fun perform :: "driver \<Rightarrow> snapshot_lister \<Rightarrow> operation \<Rightarrow> TridentOrchestrator \<Rightarrow> reply core_result" where
  "perform drv lister (DoAddBackend cfg) orch = replying BackendReply (AddBackend cfg orch)"
| "perform drv lister (DoGetBackend name) orch = replying BackendReply (GetBackend name orch)"
| "perform drv lister DoListBackends orch = replying BackendsReply (ListBackends orch)"
| "perform drv lister (DoDeleteBackend name) orch = replying (\<lambda>u. Done) (DeleteBackend name orch)"
| "perform drv lister (DoAddStorageClass c) orch = replying ClassReply (AddStorageClass c orch)"
| "perform drv lister (DoGetStorageClass name) orch = replying ClassReply (GetStorageClass name orch)"
| "perform drv lister DoListStorageClasses orch = replying ClassesReply (ListStorageClasses orch)"
| "perform drv lister (DoDeleteStorageClass name) orch = replying (\<lambda>u. Done) (DeleteStorageClass name orch)"
| "perform drv lister (DoAddVolume cfg) orch = replying VolumeReply (AddVolume drv cfg orch)"
| "perform drv lister (DoCloneVolume cfg) orch = replying VolumeReply (CloneVolume drv cfg orch)"
| "perform drv lister (DoGetVolume name) orch = replying VolumeReply (GetVolume name orch)"
| "perform drv lister DoListVolumes orch = replying VolumesReply (ListVolumes orch)"
| "perform drv lister (DoListVolumesByBackend name) orch = replying VolumesReply (ListVolumesByBackend name orch)"
| "perform drv lister (DoDeleteVolume name) orch = replying (\<lambda>u. Done) (DeleteVolume drv name orch)"
| "perform drv lister DoReloadVolumes orch = replying (\<lambda>u. Done) (ReloadVolumes orch)"
| "perform drv lister (DoAddNode n) orch = replying (\<lambda>u. Done) (AddNode n orch)"
| "perform drv lister (DoGetNode name) orch = replying NodeReply (GetNode name orch)"
| "perform drv lister DoListNodes orch = replying NodesReply (ListNodes orch)"
| "perform drv lister (DoDeleteNode name) orch = replying (\<lambda>u. Done) (DeleteNode name orch)"
| "perform drv lister (DoPublishVolume name info) orch = replying (\<lambda>u. Done) (PublishVolume drv name info orch)"
| "perform drv lister (DoCreateVolumeSnapshot name cfg) orch = replying SnapshotReply (CreateVolumeSnapshot drv name cfg orch)"
| "perform drv lister (DoCreateVolumeFromSnapshot snapshot cfg) orch = replying VolumeReply (CreateVolumeFromSnapshot drv snapshot cfg orch)"
| "perform drv lister (DoGetDriverTypeForVolume vol) orch = replying DriverTypeReply (GetDriverTypeForVolume vol orch)"
| "perform drv lister (DoGetVolumeType vol) orch = replying VolumeTypeReply (GetVolumeType vol orch)"
| "perform drv lister (DoListVolumesByPlugin plugin) orch = replying VolumesReply (ListVolumesByPlugin plugin orch)"
| "perform drv lister (DoAttachVolume name mountpoint options) orch = replying (\<lambda>u. Done) (AttachVolume drv name mountpoint options orch)"
| "perform drv lister (DoDetachVolume name mountpoint) orch = replying (\<lambda>u. Done) (DetachVolume drv name mountpoint orch)"
| "perform drv lister (DoListVolumeSnapshots name) orch = replying SnapshotsReply (ListVolumeSnapshots lister name orch)"

text \<open>
  A fixed orchestrator, for evaluating the handler at concrete requests: it holds
  the given volumes and backends, never fails, and places every new volume on
  the backend named \<open>backend\<close>.
\<close>

definition fixedOrchestrator :: "VolumeExternal list \<Rightarrow> BackendExternal list \<Rightarrow> unit Orchestrator" where
  "fixedOrchestrator vols backends =
     \<lparr> orchGetVolume = (\<lambda>name s.
         (case find (\<lambda>v. cfgName (volConfig v) = name) vols of
            Some v \<Rightarrow> ((Some v, None), s)
          | None \<Rightarrow> ((None, Some (NotFoundError name)), s))),
       orchListBackends = (\<lambda>s. ((Some backends, None), s)),
       orchAddVolume = (\<lambda>cfg s. (Inr \<lparr> volConfig = cfg, volBackend = ''backend'' \<rparr>, s)),
       commonGetStorageClass = (\<lambda>params s. (Inr ''basic'', s)),
       commonGetVolumeConfig = (\<lambda>name sc sizeBytes params protocol accessMode.
         Inr \<lparr> cfgName = name, cfgInternalName = name, cfgSize = [],
               cfgProtocol = protocol, cfgAccessMode = accessMode, cfgFileSystem = [],
               cfgStorageClass = sc, cfgCloneSourceVolume = [] \<rparr>) \<rparr>"

text \<open>
  A volume of 1 GiB named \<open>v\<close>, and requests for that name with the given
  capabilities and required size.
\<close>

definition sampleVolume :: VolumeExternal where
  "sampleVolume =
     \<lparr> volConfig = \<lparr> cfgName = ''v'', cfgInternalName = ''trident_v'', cfgSize = ''1073741824'',
                     cfgProtocol = File, cfgAccessMode = ModeAny, cfgFileSystem = [],
                     cfgStorageClass = ''basic'', cfgCloneSourceVolume = [] \<rparr>,
       volBackend = ''b1'' \<rparr>"

definition sampleRequest :: "VolumeCapability list option \<Rightarrow> int \<Rightarrow> CreateVolumeRequest" where
  "sampleRequest caps bytes =
     \<lparr> reqName = ''v'', reqVolumeCapabilities = caps,
       reqCapacityRange = Some \<lparr> RequiredBytes = bytes, LimitBytes = 0 \<rparr>,
       reqParameters = [] \<rparr>"

definition mountCapability :: VolumeCapability where
  "mountCapability =
     \<lparr> capAccessType = MountAccess ''ext4'', capAccessMode = Some SINGLE_NODE_WRITER \<rparr>"

definition blockCapability :: VolumeCapability where
  "blockCapability = \<lparr> capAccessType = BlockAccess, capAccessMode = Some SINGLE_NODE_WRITER \<rparr>"

definition fileBackend :: BackendExternal where
  "fileBackend = \<lparr> beName = ''b1'', beProtocol = File \<rparr>"

text \<open>
  A config directory with two backend files and one entry that is not a regular
  file, a decoder that keeps the contents as the backend's config, and two live
  backends whose drivers report three volumes and one error.
\<close>

definition sampleDecode :: "string \<Rightarrow> store_error + BackendPersistent" where
  "sampleDecode contents =
     (if contents = [] then Inl (OtherStoreError ''input failed validation'')
      else Inr \<lparr> bpVersion = ''1'', bpConfig = contents, bpName = [], bpOnline = True \<rparr>)"

definition sampleDirectory :: path_info where
  "sampleDirectory =
     PathDirectory (Inr [\<lparr> entryRegular = True, entryRead = Contents ''fast'' \<rparr>,
                         \<lparr> entryRegular = False, entryRead = ReadFailed \<rparr>,
                         \<lparr> entryRegular = True, entryRead = Contents ''slow'' \<rparr>])"

definition sampleClient :: PassthroughClient where
  "sampleClient =
     \<lparr> liveBackends = [], bootBackends =
         [\<lparr> bpVersion = ''1'', bpConfig = ''fast'', bpName = [], bpOnline = True \<rparr>,
          \<lparr> bpVersion = ''1'', bpConfig = ''slow'', bpName = [], bpOnline = True \<rparr>],
       version = \<lparr> PersistentStoreVersion = ''passthrough'', OrchestratorAPIVersion = ''1'' \<rparr> \<rparr>"

definition namedVolume :: "string \<Rightarrow> string \<Rightarrow> VolumeExternal" where
  "namedVolume name backend =
     \<lparr> volConfig = \<lparr> cfgName = name, cfgInternalName = name, cfgSize = ''1073741824'',
                     cfgProtocol = File, cfgAccessMode = ModeAny, cfgFileSystem = [],
                     cfgStorageClass = [], cfgCloneSourceVolume = [] \<rparr>,
       volBackend = backend \<rparr>"

definition fastBackend :: Backend where
  "fastBackend =
     \<lparr> backendName = ''fast'',
       driverWrappers = [\<lparr> wVolume = Some (namedVolume ''a1'' []), wError = None \<rparr>,
                         \<lparr> wVolume = None, wError = Some ''unreachable'' \<rparr>,
                         \<lparr> wVolume = Some (namedVolume ''a2'' []), wError = None \<rparr>] \<rparr>"

definition slowBackend :: Backend where
  "slowBackend =
     \<lparr> backendName = ''slow'',
       driverWrappers = [\<lparr> wVolume = Some (namedVolume ''b1'' []), wError = None \<rparr>] \<rparr>"

subsection \<open>Fixtures of the orchestrator tests\<close>

text \<open>
  An empty store, a driver that accepts every call and lists no snapshot, and the orchestrator that
  Bootstrap gives on the empty store (\<open>getOrchestrator\<close> of the tests).
\<close>

definition emptyStore :: Store where
  "emptyStore = \<lparr> stBackends = [], stClasses = [], stVolumes = [], stNodes = [], stTransactions = [] \<rparr>"

definition okDriver :: driver where
  "okDriver call = DriverOK"

definition noSnapshots :: snapshot_lister where
  "noSnapshots backend internalName = Inr []"

definition readyOrchestrator :: TridentOrchestrator where
  "readyOrchestrator = snd (Bootstrap (NewTridentOrchestrator emptyStore))"






text \<open>
  The scenario of \<open>TestBackendUpdateAndDelete\<close> and \<open>TestCloneVolumes\<close>: one
  backend with one pool, a class that matches it, and a volume of that class.
\<close>

text \<open>
  \<open>generateVolumeConfig\<close> of the tests: the size is the number of gibibytes
  times \<open>1024*1024*1024\<close>, in Go's 64-bit \<open>int\<close>, printed with \<open>%d\<close>; the fields
  that the helper leaves out are the zero values.
\<close>

definition wrapInt64 :: "int \<Rightarrow> int" where
  "wrapInt64 n = (n + 2 ^ 63) mod 2 ^ 64 - 2 ^ 63"

function decimalDigits :: "int \<Rightarrow> string" where
  "decimalDigits n =
     (if n < 10 then [''0123456789'' ! nat n]
      else decimalDigits (n div 10) @ [''0123456789'' ! nat (n mod 10)])"
  by pat_completeness auto
termination
  by (relation "measure nat") auto

definition formatDecimal :: "int \<Rightarrow> string" where
  "formatDecimal n = (if n < 0 then CHR ''-'' # decimalDigits (- n) else decimalDigits n)"

definition generateVolumeConfig :: "string \<Rightarrow> int \<Rightarrow> string \<Rightarrow> Protocol \<Rightarrow> VolumeConfig" where
  "generateVolumeConfig name gb storageClass protocol =
     \<lparr> cfgName = name, cfgInternalName = [],
       cfgSize = formatDecimal (wrapInt64 (gb * 1024 * 1024 * 1024)), cfgProtocol = protocol,
       cfgAccessMode = ModeAny, cfgFileSystem = [], cfgStorageClass = storageClass,
       cfgCloneSourceVolume = [] \<rparr>"

definition primaryBackend :: BackendConfig where
  "primaryBackend =
     \<lparr> bcName = ''b1'', bcDriverName = ''fake'', bcProtocol = File, bcPrefix = ''trident-'',
       bcPools = [(''primary'', [(''media'', StringOffer [''hdd''])])] \<rparr>"

definition primaryClass :: StorageClassConfig where
  "primaryClass =
     \<lparr> scName = ''sc'', scAttributes = [(''media'', StringRequest ''hdd'')], scPools = [],
       scAdditionalPools = [] \<rparr>"

definition scenarioOrchestrator :: TridentOrchestrator where
  "scenarioOrchestrator =
     snd (AddVolume okDriver (generateVolumeConfig ''v'' 50 ''sc'' File)
       (snd (AddStorageClass primaryClass (snd (AddBackend primaryBackend readyOrchestrator)))))"

definition scenarioBackend :: StorageBackend where
  "scenarioBackend =
     \<lparr> sbName = ''b1'', sbDriverName = ''fake'', sbState = Online, sbProtocol = File,
       sbPrefix = ''trident-'',
       sbStorage = [\<lparr> poolName = ''primary'', poolAttributes = [(''media'', StringOffer [''hdd''])],
                      poolStorageClasses = [''sc''] \<rparr>] \<rparr>"

definition scenarioVolume :: Volume where
  "scenarioVolume =
     \<lparr> vConfig = (generateVolumeConfig ''v'' 50 ''sc'' File)\<lparr>cfgInternalName := ''trident-v''\<rparr>,
       vBackendName = ''b1'', vPool = ''primary'', vOrphaned = False \<rparr>"

definition cloneConfig :: VolumeConfig where
  "cloneConfig = (generateVolumeConfig ''clone'' 50 ''sc'' File)\<lparr>cfgCloneSourceVolume := ''v''\<rparr>"

definition scenarioClone :: Volume where
  "scenarioClone =
     \<lparr> vConfig = cloneConfig\<lparr>cfgInternalName := ''trident-clone''\<rparr>,
       vBackendName = ''b1'', vPool = ''primary'', vOrphaned = False \<rparr>"




definition offlineOrchestrator :: TridentOrchestrator where
  "offlineOrchestrator = snd (DeleteBackend ''b1'' scenarioOrchestrator)"






section \<open>Theorems\<close>

subsection \<open>CSI CreateVolume\<close>


text \<open>
  Claim C8. The CSI access-mode mapping: SINGLE_NODE_WRITER and
  SINGLE_NODE_READER_ONLY map to ReadWriteOnce, MULTI_NODE_READER_ONLY maps to
  ReadOnlyMany, MULTI_NODE_SINGLE_WRITER and MULTI_NODE_MULTI_WRITER map to
  ReadWriteMany; MULTI_NODE_MULTI_WRITER is the only mode whose protocol is File,
  and every other mode (the unnamed ones included) yields protocol Any.
\<close>

theorem C8_access_mode_mapping:
  "getAccessForCSIAccessMode SINGLE_NODE_WRITER = ReadWriteOnce
   \<and> getAccessForCSIAccessMode SINGLE_NODE_READER_ONLY = ReadWriteOnce
   \<and> getAccessForCSIAccessMode MULTI_NODE_READER_ONLY = ReadOnlyMany
   \<and> getAccessForCSIAccessMode MULTI_NODE_SINGLE_WRITER = ReadWriteMany
   \<and> getAccessForCSIAccessMode MULTI_NODE_MULTI_WRITER = ReadWriteMany
   \<and> getProtocolForCSIAccessMode m =
         (if m = MULTI_NODE_MULTI_WRITER then File else ProtocolAny)"
  by (cases m) simp_all

lemma sample_size: "fst (ParseInt (cfgSize (volConfig sampleVolume))) = 1073741824"
  by (simp add: sampleVolume_def ParseInt_def ParseUint_def isDigit_def)

lemma sample_lookup:
  "orchGetVolume (fixedOrchestrator [sampleVolume] bs) ''v'' () = ((Some sampleVolume, None), ())"
  by (simp add: fixedOrchestrator_def sampleVolume_def)

text \<open>
  Claim C4, as stated, fails on a request without volume capabilities: the volume
  \<open>v\<close> exists with a size equal to the requested capacity, yet the argument check
  that precedes the lookup rejects the request with InvalidArgument.
\<close>

theorem C4_counterexample:
  "fst (orchGetVolume (fixedOrchestrator [sampleVolume] []) (reqName (sampleRequest None 1073741824)) ())
     = (Some sampleVolume, None)
   \<and> requiredBytes (sampleRequest None 1073741824)
       \<le> fst (ParseInt (cfgSize (volConfig sampleVolume)))
   \<and> fst (CreateVolume (fixedOrchestrator [sampleVolume] []) (sampleRequest None 1073741824) ())
       = Failed (Status InvalidArgument ''volume capabilities missing in request'')"
  by (simp add: sample_size sample_lookup sampleRequest_def requiredBytes_def CreateVolume_def)

text \<open>
  Claim C4, amended. For a request that passes the argument checks (a non-empty
  name, volume capabilities present) and for which GetVolume returns an existing
  volume of the requested name, CreateVolume makes no orchestrator call besides
  that lookup (so AddVolume is not invoked) and returns that volume when its
  size, as ParseInt reads it, is at least the requested capacity; when the size is
  smaller it fails with AlreadyExists.
\<close>

theorem C4_existing_volume:
  assumes "reqName req \<noteq> []" and "reqVolumeCapabilities req \<noteq> None"
    and "orchGetVolume p (reqName req) s = ((Some v, None), s1)"
  shows "CreateVolume p req s =
           ((if fst (ParseInt (cfgSize (volConfig v))) < requiredBytes req
             then Failed (Status AlreadyExists
                    (''volume '' @ reqName req @ '' (but with different size) already exists''))
             else Returned (getCSIVolumeFromTridentVolume v)),
            (s1, [GetVolumeCall (reqName req)]))"
  using assms by (simp add: CreateVolume_def)

theorem C4_existing_volume_witness:
  "CreateVolume (fixedOrchestrator [sampleVolume] [])
      (sampleRequest (Some []) 1073741824) ()
     = (Returned (getCSIVolumeFromTridentVolume sampleVolume), ((), [GetVolumeCall ''v'']))
   \<and> CreateVolume (fixedOrchestrator [sampleVolume] [])
      (sampleRequest (Some []) 2147483648) ()
     = (Failed (Status AlreadyExists ''volume v (but with different size) already exists''),
        ((), [GetVolumeCall ''v'']))"
proof -
  have n: "reqName (sampleRequest (Some []) b) \<noteq> []" for b
    by (simp add: sampleRequest_def)
  have c: "reqVolumeCapabilities (sampleRequest (Some []) b) \<noteq> None" for b
    by (simp add: sampleRequest_def)
  have g: "orchGetVolume (fixedOrchestrator [sampleVolume] []) (reqName (sampleRequest (Some []) b)) ()
             = ((Some sampleVolume, None), ())" for b
    by (simp add: sampleRequest_def sample_lookup)
  show ?thesis
    using C4_existing_volume [OF n c g, of 1073741824] C4_existing_volume [OF n c g, of 2147483648]
    by (simp add: sample_size requiredBytes_def sampleRequest_def)
qed

lemma hasBackendForProtocol_trace:
  "\<exists>b s'. hasBackendForProtocol p protocol st = (b, (s', snd st @ [ListBackendsCall]))"
  by (auto simp: hasBackendForProtocol_def Let_def split: prod.splits option.splits)

lemma capabilityLoop_block:
  assumes "\<exists>c\<in>set caps. capAccessType c = BlockAccess"
    and "\<forall>c\<in>set (takeWhile (\<lambda>c. capAccessType c \<noteq> BlockAccess) caps). capAccessMode c \<noteq> None"
  shows "\<exists>msg s' n. capabilityLoop p caps vars st
           = (Failed (Status InvalidArgument msg), (s', snd st @ replicate n ListBackendsCall))"
  using assms
proof (induction caps arbitrary: vars st)
  case Nil
  then show ?case by simp
next
  case (Cons c cs)
  show ?case
  proof (cases "capAccessType c = BlockAccess")
    case True
    then have "capabilityLoop p (c # cs) vars st
                 = (Failed (Status InvalidArgument ''block access type not supported''),
                    (fst st, snd st @ replicate 0 ListBackendsCall))"
      by simp
    then show ?thesis by blast
  next
    case False
    with Cons.prems obtain mode where mode: "capAccessMode c = Some mode" by auto
    from False Cons.prems have ex: "\<exists>c\<in>set cs. capAccessType c = BlockAccess" by auto
    from False Cons.prems have
      al: "\<forall>c\<in>set (takeWhile (\<lambda>c. capAccessType c \<noteq> BlockAccess) cs). capAccessMode c \<noteq> None"
      by auto
    obtain b s' where hb: "hasBackendForProtocol p (getProtocolForCSIAccessMode mode) st
                             = (b, (s', snd st @ [ListBackendsCall]))"
      using hasBackendForProtocol_trace [of p "getProtocolForCSIAccessMode mode" st] by auto
    show ?thesis
    proof (cases b)
      case False
      with \<open>capAccessType c \<noteq> BlockAccess\<close> mode hb
      have "capabilityLoop p (c # cs) vars st
              = (Failed (Status InvalidArgument ''no available storage for access mode''),
                 (s', snd st @ replicate 1 ListBackendsCall))"
        by simp
      then show ?thesis by blast
    next
      case True
      let ?vars = "(getAccessForCSIAccessMode mode, getProtocolForCSIAccessMode mode,
                     (case capAccessType c of MountAccess fsType \<Rightarrow> fsType | _ \<Rightarrow> snd (snd vars)))"
      from Cons.IH [OF ex al, of ?vars "(s', snd st @ [ListBackendsCall])"]
      obtain msg s'' n where
        "capabilityLoop p cs ?vars (s', snd st @ [ListBackendsCall])
           = (Failed (Status InvalidArgument msg),
              (s'', snd st @ ListBackendsCall # replicate n ListBackendsCall))"
        by auto
      with True \<open>capAccessType c \<noteq> BlockAccess\<close> mode hb
      have "capabilityLoop p (c # cs) vars st
              = (Failed (Status InvalidArgument msg), (s'', snd st @ replicate (Suc n) ListBackendsCall))"
        by simp
      then show ?thesis by blast
    qed
  qed
qed

text \<open>
  Claim C10, amended. If GetVolume finds no volume of the requested name (no
  error, or NotFound), some requested capability has the block access type, and
  the capabilities before the first such one carry an access mode, then
  CreateVolume fails with InvalidArgument, having called neither the storage
  class lookup nor AddVolume.
\<close>

theorem C10_block_rejected:
  assumes "reqVolumeCapabilities req = Some caps"
    and "\<exists>c\<in>set caps. capAccessType c = BlockAccess"
    and "\<forall>c\<in>set (takeWhile (\<lambda>c. capAccessType c \<noteq> BlockAccess) caps). capAccessMode c \<noteq> None"
    and "fst (orchGetVolume p (reqName req) s) = (None, err)"
    and "err = None \<or> (\<exists>e. err = Some e \<and> IsNotFoundError e)"
  shows "\<exists>msg st. CreateVolume p req s = (Failed (Status InvalidArgument msg), st)
           \<and> GetStorageClassCall \<notin> set (snd st) \<and> (\<forall>cfg. AddVolumeCall cfg \<notin> set (snd st))"
proof (cases "reqName req = []")
  case True
  then show ?thesis by (simp add: CreateVolume_def)
next
  case False
  obtain s1 where g: "orchGetVolume p (reqName req) s = ((None, err), s1)"
    using assms(4) by (cases "orchGetVolume p (reqName req) s") auto
  from capabilityLoop_block [OF assms(2,3), of p "(ModeAny, ProtocolAny, [])" "(s1, [GetVolumeCall (reqName req)])"]
  obtain msg s' n where
    loop: "capabilityLoop p caps (ModeAny, ProtocolAny, []) (s1, [GetVolumeCall (reqName req)])
             = (Failed (Status InvalidArgument msg),
                (s', GetVolumeCall (reqName req) # replicate n ListBackendsCall))"
    by auto
  have "CreateVolume p req s
          = (Failed (Status InvalidArgument msg),
             (s', GetVolumeCall (reqName req) # replicate n ListBackendsCall))"
    using False assms(1,5) g loop
    by (auto simp: CreateVolume_def createNewVolume_def)
  then show ?thesis by auto
qed

theorem C10_block_rejected_witness:
  "\<exists>msg st.
      CreateVolume (fixedOrchestrator [] [fileBackend])
        (sampleRequest (Some [mountCapability, blockCapability]) 1073741824) ()
        = (Failed (Status InvalidArgument msg), st)
      \<and> GetStorageClassCall \<notin> set (snd st) \<and> (\<forall>cfg. AddVolumeCall cfg \<notin> set (snd st))"
proof -
  let ?req = "sampleRequest (Some [mountCapability, blockCapability]) 1073741824"
  have h1: "reqVolumeCapabilities ?req = Some [mountCapability, blockCapability]"
    by (simp add: sampleRequest_def)
  have h2: "\<exists>c\<in>set [mountCapability, blockCapability]. capAccessType c = BlockAccess"
    by (simp add: blockCapability_def)
  have h3: "\<forall>c\<in>set (takeWhile (\<lambda>c. capAccessType c \<noteq> BlockAccess)
                [mountCapability, blockCapability]). capAccessMode c \<noteq> None"
    by (simp add: mountCapability_def blockCapability_def)
  have h4: "fst (orchGetVolume (fixedOrchestrator [] [fileBackend]) (reqName ?req) ())
              = (None, Some (NotFoundError ''v''))"
    by (simp add: fixedOrchestrator_def sampleRequest_def)
  have h5: "Some (NotFoundError ''v'') = None
              \<or> (\<exists>e. Some (NotFoundError ''v'') = Some e \<and> IsNotFoundError e)"
    by simp
  show ?thesis by (rule C10_block_rejected [OF h1 h2 h3 h4 h5])
qed

text \<open>
  Claim C10, as stated, fails when the volume already exists: the lookup of the
  existing volume comes before the capability loop, so a request whose only
  capability is a block one is answered with the existing volume.
\<close>

theorem C10_counterexample:
  "capAccessType blockCapability = BlockAccess
   \<and> fst (CreateVolume (fixedOrchestrator [sampleVolume] [fileBackend])
            (sampleRequest (Some [blockCapability]) 1073741824) ())
       = Returned (getCSIVolumeFromTridentVolume sampleVolume)"
  by (simp add: blockCapability_def CreateVolume_def sampleRequest_def sample_lookup
      sample_size requiredBytes_def)

subsection \<open>Passthrough store\<close>

lemma GetBackends_boot: "Passthrough_GetBackends c = (bootBackends c, None)"
proof -
  have "foldl (\<lambda>backendList backend. backendList @ [backend]) acc xs = acc @ xs" for acc and xs :: "BackendPersistent list"
    by (induction xs arbitrary: acc) auto
  then show ?thesis by (simp add: Passthrough_GetBackends_def)
qed

lemma applyBackendOp_boot: "bootBackends (applyBackendOp c op) = bootBackends c"
  by (cases op)
    (simp_all add: Passthrough_AddBackend_def Passthrough_UpdateBackend_def
      Passthrough_DeleteBackend_def Passthrough_DeleteBackends_def)

lemma run_boot: "bootBackends (foldl applyBackendOp c ops) = bootBackends c"
  by (induction ops arbitrary: c) (simp_all add: applyBackendOp_boot)

lemma loadBackend_boot:
  "loadBackend decode file c = Initialized c' \<Longrightarrow>
     \<exists>s. file = Contents s \<and> map Inr (bootBackends c') = map Inr (bootBackends c) @ [decode s]"
  by (auto simp: loadBackend_def split: read_result.splits sum.splits)

lemma loadDirectory_boot:
  "loadDirectory decode files c = Initialized c' \<Longrightarrow>
     map Inr (bootBackends c') = map Inr (bootBackends c) @ map decode (loadedContents (PathDirectory (Inr files)))"
proof (induction files arbitrary: c)
  case Nil
  then show ?case by simp
next
  case (Cons f fs)
  show ?case
  proof (cases "entryRegular f")
    case False
    with Cons show ?thesis by simp
  next
    case True
    with Cons.prems obtain c1 where
      l: "loadBackend decode (entryRead f) c = Initialized c1"
      and r: "loadDirectory decode fs c1 = Initialized c'"
      by (auto split: init_result.splits)
    from loadBackend_boot [OF l] obtain s where
      s: "entryRead f = Contents s"
         "map Inr (bootBackends c1) = map Inr (bootBackends c) @ [decode s]"
      by blast
    from Cons.IH [OF r] s True show ?thesis by simp
  qed
qed

lemma initialize_boot:
  assumes "NewPassthroughClient decode apiVersion configPath info = Initialized c"
  shows "map Inr (bootBackends c) = map decode (loadedContents info)"
proof (cases info)
  case (PathDirectory d)
  with assms show ?thesis
    by (cases d) (auto simp: NewPassthroughClient_def initialize_def split: if_splits
        dest!: loadDirectory_boot)
next
  case (PathRegular f)
  with assms show ?thesis
    by (auto simp: NewPassthroughClient_def initialize_def split: if_splits
        dest!: loadBackend_boot)
qed (use assms in \<open>auto simp: NewPassthroughClient_def initialize_def split: if_splits\<close>)

text \<open>
  Claim C9. No run of AddBackend, UpdateBackend, DeleteBackend and DeleteBackends
  calls changes what GetBackends returns; and for a client that
  NewPassthroughClient has built, GetBackends returns, without error, exactly
  the backends decoded from the config files loaded at initialization, in order.
\<close>

theorem C9_GetBackends_unchanged:
  "Passthrough_GetBackends (foldl applyBackendOp c ops) = Passthrough_GetBackends c
   \<and> (NewPassthroughClient decode apiVersion configPath info = Initialized c \<longrightarrow>
        snd (Passthrough_GetBackends (foldl applyBackendOp c ops)) = None
        \<and> map Inr (fst (Passthrough_GetBackends (foldl applyBackendOp c ops)))
            = map decode (loadedContents info))"
  by (simp add: GetBackends_boot run_boot initialize_boot)

theorem C9_GetBackends_unchanged_witness:
  "NewPassthroughClient sampleDecode ''1'' ''/etc/config'' sampleDirectory = Initialized sampleClient
   \<and> Passthrough_GetBackends
        (foldl applyBackendOp sampleClient
           [OpAddBackend fastBackend, OpUpdateBackend fastBackend, OpAddBackend slowBackend,
            OpDeleteBackend fastBackend, OpDeleteBackends])
       = (bootBackends sampleClient, None)"
proof -
  have init:
    "NewPassthroughClient sampleDecode ''1'' ''/etc/config'' sampleDirectory = Initialized sampleClient"
    by (simp add: NewPassthroughClient_def initialize_def sampleDirectory_def loadBackend_def
        sampleDecode_def sampleClient_def)
  have boot: "Passthrough_GetBackends sampleClient = (bootBackends sampleClient, None)"
    by (simp add: Passthrough_GetBackends_def sampleClient_def)
  from C9_GetBackends_unchanged
         [of sampleClient
            "[OpAddBackend fastBackend, OpUpdateBackend fastBackend, OpAddBackend slowBackend,
              OpDeleteBackend fastBackend, OpDeleteBackends]"
            sampleDecode "''1''" "''/etc/config''" sampleDirectory]
       init boot
  show ?thesis by simp
qed

lemma mset_concat_update:
  "i < length streams \<Longrightarrow> streams ! i = x # xs \<Longrightarrow>
     mset (concat (streams[i := xs])) + {#x#} = mset (concat streams)"
proof (induction streams arbitrary: i)
  case Nil
  then show ?case by simp
next
  case (Cons s ss)
  then show ?case by (cases i) auto
qed

lemma mset_channelOrder: "mset (channelOrder sched streams) = mset (concat streams)"
proof (induction sched arbitrary: streams)
  case Nil
  then show ?case by simp
next
  case (Cons i sched)
  show ?case
  proof (cases "i < length streams")
    case False
    with Cons show ?thesis by simp
  next
    case True
    show ?thesis
    proof (cases "streams ! i")
      case Nil
      with True Cons show ?thesis by simp
    next
      case (Cons x xs)
      with True Cons.IH [of "streams[i := xs]"] mset_concat_update [OF True Cons]
      show ?thesis by (simp add: add.commute)
    qed
  qed
qed

lemma collectVolumes_filter:
  "collectVolumes ws = map wVolume (filter (\<lambda>w. wError w = None) ws)"
  by (induction ws) auto

lemma mset_collectVolumes:
  "mset ws = mset ws' \<Longrightarrow> mset (collectVolumes ws) = mset (collectVolumes ws')"
  by (simp add: collectVolumes_filter)

lemma collect_getVolumesFromBackend:
  "collectVolumes (getVolumesFromBackend b) = reportedVolumes b"
  by (simp add: collectVolumes_filter getVolumesFromBackend_def reportedVolumes_def
      filter_map comp_def split: option.splits)
    (rule arg_cong2 [where f = map], auto split: option.splits intro!: filter_cong)


lemma collectVolumes_append: "collectVolumes (xs @ ys) = collectVolumes xs @ collectVolumes ys"
  by (simp add: collectVolumes_filter)

lemma collectVolumes_concat:
  "collectVolumes (concat xss) = concat (map collectVolumes xss)"
  by (induction xss) (simp_all add: collectVolumes_append)

lemma reportedVolumes_backend:
  "Some v \<in> set (reportedVolumes b) \<Longrightarrow> volBackend v = backendName b"
  by (auto simp: reportedVolumes_def map_option_case split: option.splits)

text \<open>
  Claim C7. Whatever the order in which the goroutines deliver, GetVolumes
  returns no error, and the list it returns holds exactly the volumes that the
  live backends report successfully (the concatenation of the per-backend
  lists, up to the order of arrival; the concatenation itself when the streams
  arrive one after the other). Every volume returned carries the name of a live
  backend in its Backend field. A wrapper with an error is skipped and stops
  nothing.
\<close>

theorem C7_GetVolumes:
  "snd (Passthrough_GetVolumes sched c) = None
   \<and> mset (fst (Passthrough_GetVolumes sched c))
       = mset (concat (map (\<lambda>(key, backend). reportedVolumes backend) (liveBackends c)))
   \<and> Passthrough_GetVolumes [] c
       = (concat (map (\<lambda>(key, backend). reportedVolumes backend) (liveBackends c)), None)
   \<and> (\<forall>v. Some v \<in> set (fst (Passthrough_GetVolumes sched c)) \<longrightarrow>
          volBackend v \<in> backendName ` snd ` set (liveBackends c))"
proof -
  let ?streams = "map (\<lambda>(key, backend). getVolumesFromBackend backend) (liveBackends c)"
  have eq: "collectVolumes (concat ?streams)
              = concat (map (\<lambda>(key, backend). reportedVolumes backend) (liveBackends c))"
    by (simp add: collectVolumes_concat comp_def case_prod_unfold collect_getVolumesFromBackend)
  have "mset (collectVolumes (channelOrder sched ?streams)) = mset (collectVolumes (concat ?streams))"
    by (rule mset_collectVolumes) (rule mset_channelOrder)
  with eq have m: "mset (fst (Passthrough_GetVolumes sched c))
       = mset (concat (map (\<lambda>(key, backend). reportedVolumes backend) (liveBackends c)))"
    by (simp add: Passthrough_GetVolumes_def)
  have "volBackend v \<in> backendName ` snd ` set (liveBackends c)"
    if "Some v \<in> set (fst (Passthrough_GetVolumes sched c))" for v
  proof -
    from that have "Some v \<in># mset (fst (Passthrough_GetVolumes sched c))" by simp
    with m have "Some v \<in> set (concat (map (\<lambda>(key, backend). reportedVolumes backend)
                     (liveBackends c)))"
      by (metis set_mset_mset)
    then obtain key b where "(key, b) \<in> set (liveBackends c)" "Some v \<in> set (reportedVolumes b)"
      by auto
    then show ?thesis by (force dest: reportedVolumes_backend)
  qed
  with eq m show ?thesis by (simp add: Passthrough_GetVolumes_def)
qed

theorem C7_GetVolumes_witness:
  "snd (Passthrough_GetVolumes [0, 1, 0]
          (fst (Passthrough_AddBackend slowBackend
             (fst (Passthrough_AddBackend fastBackend sampleClient))))) = None
   \<and> mset (fst (Passthrough_GetVolumes [0, 1, 0]
          (fst (Passthrough_AddBackend slowBackend
             (fst (Passthrough_AddBackend fastBackend sampleClient))))))
       = {#Some (namedVolume ''a1'' ''fast''), Some (namedVolume ''a2'' ''fast''),
           Some (namedVolume ''b1'' ''slow'')#}
   \<and> volBackend (namedVolume ''b1'' ''slow'') \<in> {''fast'', ''slow''}"
proof -
  let ?c = "fst (Passthrough_AddBackend slowBackend
                  (fst (Passthrough_AddBackend fastBackend sampleClient)))"
  have fast: "backendName fastBackend = ''fast''" by (simp add: fastBackend_def)
  have slow: "backendName slowBackend = ''slow''" by (simp add: slowBackend_def)
  have live: "liveBackends ?c = [(''fast'', fastBackend), (''slow'', slowBackend)]"
    by (simp add: Passthrough_AddBackend_def sampleClient_def fast slow)
  have run: "fst (Passthrough_GetVolumes [0, 1, 0] ?c)
               = [Some (namedVolume ''a1'' ''fast''), Some (namedVolume ''b1'' ''slow''),
                  Some (namedVolume ''a2'' ''fast'')]"
    by (simp only: Passthrough_GetVolumes_def live)
      (simp add: getVolumesFromBackend_def fastBackend_def slowBackend_def namedVolume_def)
  have rep: "concat (map (\<lambda>(key, backend). reportedVolumes backend) (liveBackends ?c))
               = [Some (namedVolume ''a1'' ''fast''), Some (namedVolume ''a2'' ''fast''),
                  Some (namedVolume ''b1'' ''slow'')]"
    by (simp only: live)
      (simp add: reportedVolumes_def fastBackend_def slowBackend_def namedVolume_def)
  have names: "backendName ` snd ` set (liveBackends ?c) = {''fast'', ''slow''}"
    by (simp only: live) (simp add: fast slow)
  from C7_GetVolumes [of "[0, 1, 0]" ?c] have
    e: "snd (Passthrough_GetVolumes [0, 1, 0] ?c) = None"
    and m: "mset (fst (Passthrough_GetVolumes [0, 1, 0] ?c))
              = mset (concat (map (\<lambda>(key, backend). reportedVolumes backend) (liveBackends ?c)))"
    and b: "\<forall>v. Some v \<in> set (fst (Passthrough_GetVolumes [0, 1, 0] ?c)) \<longrightarrow>
              volBackend v \<in> backendName ` snd ` set (liveBackends ?c)"
    by blast+
  from b run names have "volBackend (namedVolume ''b1'' ''slow'') \<in> {''fast'', ''slow''}"
    by simp
  with e m rep show ?thesis by simp
qed



subsection \<open>Orchestrator core: the fixtures evaluated\<close>

lemma readyOrchestrator_eq:
  "readyOrchestrator =
     \<lparr> bootstrapped = True, coreBackends = [], coreClasses = [], coreVolumes = [],
       coreNodes = [], storeClient = emptyStore, driverLog = [] \<rparr>"
  by (simp add: readyOrchestrator_def Bootstrap_def NewTridentOrchestrator_def emptyStore_def
      loadVolumes_def bootstrapBackends_def bootstrapStorageClasses_def bootstrapVolTxns_def
      sweepOfflineBackends_def)

lemma scenarioOrchestrator_eq:
  "scenarioOrchestrator =
     \<lparr> bootstrapped = True,
       coreBackends = [scenarioBackend],
       coreClasses = [\<lparr> scConfig = primaryClass, scMatched = [(''b1'', ''primary'')] \<rparr>],
       coreVolumes = [scenarioVolume],
       coreNodes = [],
       storeClient =
         \<lparr> stBackends = [newBackend primaryBackend], stClasses = [primaryClass],
           stVolumes = [scenarioVolume], stNodes = [], stTransactions = [] \<rparr>,
       driverLog = [CreateCall ''b1'' ''primary'' ''v''] \<rparr>"
  by (simp add: scenarioOrchestrator_def readyOrchestrator_eq AddBackend_def whenReady_def
      newBackend_def primaryBackend_def AddStorageClass_def matchClass_def installClass_def
      matchingPools_def recordClass_def recordPool_def classMatches_def listedIn_def poolsFilter_def
      attributesFilter_def primaryClass_def Store_AddBackend_def Store_AddStorageClass_def
      emptyStore_def AddVolume_def findClass_def findVolume_def generateVolumeConfig_def
      formatDecimal_def wrapInt64_def
      ParseInt_def ParseUint_def isDigit_def candidatePools_def findBackend_def
      protocolCompatible_def journalled_def okDriver_def placedVolume_def
      GetInternalVolumeName_def Store_AddVolume_def Store_AddVolumeTransaction_def
      Store_DeleteVolumeTransaction_def txnKey_def scenarioVolume_def scenarioBackend_def
      rematchClass_def markOrphaned_def Let_def)


lemma offlineOrchestrator_eq:
  "offlineOrchestrator =
     scenarioOrchestrator
       \<lparr> coreBackends := [scenarioBackend\<lparr>sbState := Offline\<rparr>],
         coreClasses := [\<lparr> scConfig = primaryClass, scMatched = [] \<rparr>],
         storeClient :=
           \<lparr> stBackends = [scenarioBackend\<lparr>sbState := Offline\<rparr>], stClasses = [primaryClass],
             stVolumes = [scenarioVolume], stNodes = [], stTransactions = [] \<rparr> \<rparr>"
  by (simp add: offlineOrchestrator_def scenarioOrchestrator_eq DeleteBackend_def whenReady_def
      findBackend_def scenarioBackend_def backendVolumes_def scenarioVolume_def
      removeBackendFromClass_def Store_AddBackend_def newBackend_def primaryBackend_def)

subsection \<open>Orchestrator core: lookups\<close>

lemma find_append_new:
  "find P xs = None \<Longrightarrow> P x \<Longrightarrow> find P (xs @ [x]) = Some x"
  by (induction xs) (auto split: if_splits)

lemma find_upsert_same: "find (\<lambda>y. key y = key x) (upsert key x ys) = Some x"
  by (induction ys) auto

lemma findBackend_name: "findBackend name bs = Some b \<Longrightarrow> sbName b = name \<and> b \<in> set bs"
  unfolding findBackend_def by (induction bs) (auto split: if_splits)

subsection \<open>Operations before Bootstrap\<close>

lemma replying_not_ready: "replying f (Inl NotReadyErr, orch) = (Inl NotReadyErr, orch)"
  by (simp add: replying_def)

lemma whenReady_not_ready: "\<not> bootstrapped orch \<Longrightarrow> whenReady body orch = (Inl NotReadyErr, orch)"
  by (simp add: whenReady_def)

text \<open>
  Claim C5. While \<open>bootstrapped\<close> is false, every public operation of the
  orchestrator (those of section 4.1 and those that \<open>TestOrchestratorNotReady\<close>
  calls), whatever its arguments and whatever the driver would answer, returns
  the NotReady error with no result, and leaves the orchestrator as it was.
\<close>

theorem C5_not_ready:
  assumes "\<not> bootstrapped orch"
  shows "perform drv lister op orch = (Inl NotReadyErr, orch)"
  using assms
  by (cases op)
     (simp_all add: replying_not_ready whenReady_not_ready AddBackend_def GetBackend_def ListBackends_def
        DeleteBackend_def AddStorageClass_def GetStorageClass_def ListStorageClasses_def
        DeleteStorageClass_def AddVolume_def CloneVolume_def GetVolume_def ListVolumes_def
        ListVolumesByBackend_def DeleteVolume_def ReloadVolumes_def AddNode_def GetNode_def
        ListNodes_def DeleteNode_def PublishVolume_def CreateVolumeSnapshot_def
        CreateVolumeFromSnapshot_def GetDriverTypeForVolume_def GetVolumeType_def
        ListVolumesByPlugin_def AttachVolume_def DetachVolume_def ListVolumeSnapshots_def)

theorem C5_not_ready_witness:
  "\<not> bootstrapped (NewTridentOrchestrator emptyStore)
   \<and> perform okDriver noSnapshots (DoListVolumeSnapshots ''v'') (NewTridentOrchestrator emptyStore)
       = (Inl NotReadyErr, NewTridentOrchestrator emptyStore)"
  using C5_not_ready [of "NewTridentOrchestrator emptyStore" okDriver noSnapshots "DoListVolumeSnapshots ''v''"]
  by (simp add: NewTridentOrchestrator_def)

subsection \<open>CloneVolume\<close>

lemma clone_result:
  "fst (CloneVolume okDriver cloneConfig scenarioOrchestrator) = Inr scenarioClone"
  by (simp add: scenarioOrchestrator_eq CloneVolume_def whenReady_def findVolume_def
      findBackend_def cloneConfig_def generateVolumeConfig_def scenarioVolume_def
      scenarioBackend_def journalled_def okDriver_def placedVolume_def scenarioClone_def
      GetInternalVolumeName_def)

text \<open>
  Claim C6. Whenever CloneVolume succeeds, the volume named as the clone source
  exists, the clone is on the backend and in the pool of that source, the only
  call to a driver is the clone call on the source's backend, and the clone is
  the volume that the orchestrator and the store now hold under the new name.
  There is no outcome in which a clone is created anywhere else.
\<close>

theorem C6_clone_on_source_backend:
  assumes "CloneVolume drv cfg orch = (Inr clone, orch')"
  shows "\<exists>source. findVolume (cfgCloneSourceVolume cfg) (coreVolumes orch) = Some source
           \<and> vBackendName clone = vBackendName source
           \<and> vPool clone = vPool source
           \<and> findVolume (cfgName cfg) (coreVolumes orch') = Some clone
           \<and> findVolume (cfgName cfg) (stVolumes (storeClient orch')) = Some clone
           \<and> driverLog orch' = driverLog orch
                @ [CreateCloneCall (vBackendName source) (cfgCloneSourceVolume cfg) (cfgName cfg)]"
proof -
  from assms have ready: "bootstrapped orch"
    by (auto simp: CloneVolume_def whenReady_def split: if_splits)
  from assms ready have free: "findVolume (cfgName cfg) (coreVolumes orch) = None"
    by (auto simp: CloneVolume_def whenReady_def split: if_splits)
  from assms ready free obtain source where
    source: "findVolume (cfgCloneSourceVolume cfg) (coreVolumes orch) = Some source"
    by (auto simp: CloneVolume_def whenReady_def split: if_splits option.splits)
  from assms ready free source obtain b where
    b: "findBackend (vBackendName source) (coreBackends orch) = Some b"
    by (auto simp: CloneVolume_def whenReady_def split: if_splits option.splits)
  have name: "sbName b = vBackendName source"
    using findBackend_name [OF b] by simp
  from assms ready free source b have
    clone: "clone = placedVolume cfg b (vPool source)"
    and after: "orch' = orch\<lparr>driverLog := driverLog orch
                                 @ [CreateCloneCall (sbName b) (cfgCloneSourceVolume cfg) (cfgName cfg)],
                              coreVolumes := coreVolumes orch @ [placedVolume cfg b (vPool source)],
                              storeClient :=
                                Store_DeleteVolumeTransaction \<lparr>txnOp = AddVolumeOp, txnConfig = cfg\<rparr>
                                  (Store_AddVolume (placedVolume cfg b (vPool source))
                                    (Store_AddVolumeTransaction \<lparr>txnOp = AddVolumeOp, txnConfig = cfg\<rparr>
                                      (storeClient orch)))\<rparr>"
    by (auto simp: CloneVolume_def whenReady_def split: if_splits option.splits driver_result.splits)
  have cname: "volumeName clone = cfgName cfg"
    by (simp add: clone placedVolume_def volumeName_def)
  have mem: "findVolume (cfgName cfg) (coreVolumes orch') = Some clone"
    using free cname find_append_new [of "\<lambda>v. cfgName (vConfig v) = cfgName cfg" "coreVolumes orch" clone]
    by (simp add: after findVolume_def clone volumeName_def)
  have store: "findVolume (cfgName cfg) (stVolumes (storeClient orch')) = Some clone"
    using find_upsert_same [of volumeName clone "stVolumes (storeClient orch)"] cname
    by (simp add: after findVolume_def Store_DeleteVolumeTransaction_def Store_AddVolume_def
        Store_AddVolumeTransaction_def clone volumeName_def)
  show ?thesis
    using source mem store name by (simp add: clone after placedVolume_def)
qed

theorem C6_clone_on_source_backend_witness:
  "CloneVolume okDriver cloneConfig scenarioOrchestrator
     = (Inr scenarioClone, snd (CloneVolume okDriver cloneConfig scenarioOrchestrator))
   \<and> (\<exists>source. findVolume ''v'' (coreVolumes scenarioOrchestrator) = Some source
         \<and> vBackendName scenarioClone = vBackendName source
         \<and> vBackendName source = ''b1'')"
proof -
  have run: "CloneVolume okDriver cloneConfig scenarioOrchestrator
               = (Inr scenarioClone, snd (CloneVolume okDriver cloneConfig scenarioOrchestrator))"
    using clone_result by (simp add: prod_eq_iff)
  from C6_clone_on_source_backend [OF run] obtain source where
    "findVolume (cfgCloneSourceVolume cloneConfig) (coreVolumes scenarioOrchestrator) = Some source"
    and "vBackendName scenarioClone = vBackendName source"
    by blast
  moreover have "cfgCloneSourceVolume cloneConfig = ''v''"
    by (simp add: cloneConfig_def generateVolumeConfig_def)
  moreover have "vBackendName scenarioClone = ''b1''"
    by (simp add: scenarioClone_def)
  ultimately show ?thesis
    using run by auto
qed

subsection \<open>AddStorageClass and the match predicate\<close>









subsection \<open>DeleteBackend and the offline backend\<close>

lemma findBackend_filter_other:
  "name \<noteq> other \<Longrightarrow> findBackend name (filter (\<lambda>b. sbName b \<noteq> other) bs) = findBackend name bs"
  unfolding findBackend_def by (induction bs) auto

lemma findBackend_filter_same: "findBackend name (filter (\<lambda>b. sbName b \<noteq> name) bs) = None"
  unfolding findBackend_def by (induction bs) auto

lemma findBackend_offline:
  "findBackend name (map (\<lambda>b. if sbName b = name then b\<lparr>sbState := Offline\<rparr> else b) bs)
     = map_option (\<lambda>b. b\<lparr>sbState := Offline\<rparr>) (findBackend name bs)"
  unfolding findBackend_def by (induction bs) auto

lemma findClass_removeBackend:
  "findClass n (map (removeBackendFromClass name) cs)
     = map_option (removeBackendFromClass name) (findClass n cs)"
  unfolding findClass_def by (induction cs) (auto simp: removeBackendFromClass_def)

lemma findVolume_mem: "findVolume n vs = Some v \<Longrightarrow> v \<in> set vs \<and> volumeName v = n"
  unfolding findVolume_def volumeName_def by (induction vs) (auto split: if_splits)

lemma place_online:
  "place drv cfg cands calls err = (Inr v, calls')
     \<Longrightarrow> \<exists>b pool. (b, pool) \<in> set cands \<and> sbState b = Online \<and> vBackendName v = sbName b"
  by (induction drv cfg cands calls err rule: place.induct)
     (auto simp: placedVolume_def split: if_splits driver_result.splits)

lemma candidatePools_backend:
  "(b, pool) \<in> set (candidatePools st sc protocol)
     \<Longrightarrow> findBackend (sbName b) (coreBackends st) = Some b"
  using findBackend_name
  by (fastforce simp: candidatePools_def split: option.splits if_splits)

lemma AddVolume_online:
  assumes "AddVolume drv cfg st = (Inr v, st')"
  shows "\<exists>b. findBackend (vBackendName v) (coreBackends st) = Some b \<and> sbState b = Online"
proof -
  from assms obtain sc calls where
    "place drv cfg (candidatePools st sc (cfgProtocol cfg)) (driverLog st) InvalidInputErr = (Inr v, calls)"
    by (auto simp: AddVolume_def whenReady_def split: if_splits option.splits prod.splits sum.splits)
  from place_online [OF this] obtain b pool where
    "(b, pool) \<in> set (candidatePools st sc (cfgProtocol cfg))" "sbState b = Online"
    "vBackendName v = sbName b"
    by blast
  with candidatePools_backend show ?thesis
    by metis
qed

lemma candidatePools_none: "scMatched sc = [] \<Longrightarrow> candidatePools st sc protocol = []"
  by (simp add: candidatePools_def)

lemma AddVolume_no_pool:
  assumes "bootstrapped st"
    and "\<forall>sc. findClass (cfgStorageClass cfg) (coreClasses st) = Some sc \<longrightarrow> scMatched sc = []"
  shows "\<exists>e. AddVolume drv cfg st = (Inl e, st)"
  using assms
  by (auto simp: AddVolume_def whenReady_def candidatePools_none split: option.splits)

lemma DeleteVolume_success:
  "DeleteVolume drv n st = (Inr (), st')
     \<Longrightarrow> \<exists>v. findVolume n (coreVolumes st) = Some v
            \<and> st' = (removeVolume v st)
                      \<lparr>storeClient := Store_DeleteVolumeTransaction
                                        \<lparr>txnOp = DeleteVolumeOp, txnConfig = vConfig v\<rparr>
                                        (storeClient (removeVolume v st))\<rparr>"
  by (auto simp: DeleteVolume_def whenReady_def split: option.splits driver_result.splits if_splits)

lemma removeEmptyOffline_backends:
  "coreBackends (removeEmptyOffline n s) =
     (if (\<exists>b. findBackend n (coreBackends s) = Some b \<and> sbState b = Offline) \<and> backendVolumes s n = []
      then filter (\<lambda>b. sbName b \<noteq> n) (coreBackends s) else coreBackends s)"
  by (auto simp: removeEmptyOffline_def split: option.splits)

lemma removeEmptyOffline_stored:
  "stBackends (storeClient (removeEmptyOffline n s)) =
     (if (\<exists>b. findBackend n (coreBackends s) = Some b \<and> sbState b = Offline) \<and> backendVolumes s n = []
      then filter (\<lambda>b. sbName b \<noteq> n) (stBackends (storeClient s)) else stBackends (storeClient s))"
  by (auto simp: removeEmptyOffline_def Store_DeleteBackend_def split: option.splits)

lemma removeEmptyOffline_volumes: "coreVolumes (removeEmptyOffline n s) = coreVolumes s"
  by (auto simp: removeEmptyOffline_def split: option.splits)

lemma DeleteVolume_offline_backend:
  assumes del: "DeleteVolume drv n st = (Inr (), st')"
    and names: "distinct (map volumeName (coreVolumes st))"
    and mem: "findBackend name (coreBackends st) = Some b" and off: "sbState b = Offline"
    and stored: "findBackend name (stBackends (storeClient st)) \<noteq> None"
    and used: "backendVolumes st name \<noteq> []"
  shows "(findBackend name (coreBackends st') = None) = (backendVolumes st' name = [])
       \<and> (findBackend name (stBackends (storeClient st')) = None) = (backendVolumes st' name = [])"
proof -
  from DeleteVolume_success [OF del] obtain v where
    v: "findVolume n (coreVolumes st) = Some v"
    and st': "st' = (removeVolume v st)
                      \<lparr>storeClient := Store_DeleteVolumeTransaction
                                        \<lparr>txnOp = DeleteVolumeOp, txnConfig = vConfig v\<rparr>
                                        (storeClient (removeVolume v st))\<rparr>"
    by blast
  define st2 where "st2 = st\<lparr>driverLog := driverLog st @ [DestroyCall (vBackendName v) (cfgInternalName (vConfig v))],
               coreVolumes := filter (\<lambda>w. volumeName w \<noteq> volumeName v) (coreVolumes st),
               storeClient := Store_DeleteVolume (volumeName v) (storeClient st)\<rparr>"
  have rem: "removeVolume v st = removeEmptyOffline (vBackendName v) st2"
    by (simp add: removeVolume_def st2_def)
  have bs2: "coreBackends st2 = coreBackends st"
    and sb2: "stBackends (storeClient st2) = stBackends (storeClient st)"
    and vs2: "coreVolumes st2 = filter (\<lambda>w. volumeName w \<noteq> volumeName v) (coreVolumes st)"
    by (simp_all add: st2_def Store_DeleteVolume_def)
  have vols: "backendVolumes st' name = backendVolumes st2 name"
    by (simp add: st' rem backendVolumes_def removeEmptyOffline_volumes)
  have bs': "coreBackends st' = coreBackends (removeEmptyOffline (vBackendName v) st2)"
    by (simp add: st' rem)
  have sb': "stBackends (storeClient st') = stBackends (storeClient (removeEmptyOffline (vBackendName v) st2))"
    by (simp add: st' rem Store_DeleteVolumeTransaction_def)
  show ?thesis
  proof (cases "vBackendName v = name")
    case True
    show ?thesis
    proof (cases "backendVolumes st2 name = []")
      case True
      with \<open>vBackendName v = name\<close> mem off show ?thesis
        by (simp add: vols bs' sb' removeEmptyOffline_backends removeEmptyOffline_stored bs2 sb2
            findBackend_filter_same)
    next
      case False
      with \<open>vBackendName v = name\<close> mem off stored show ?thesis
        by (simp add: vols bs' sb' removeEmptyOffline_backends removeEmptyOffline_stored bs2 sb2)
    qed
  next
    case False
    from used obtain w where w: "w \<in> set (coreVolumes st)" "vBackendName w = name"
      by (auto simp: backendVolumes_def filter_empty_conv)
    from findVolume_mem [OF v] have vin: "v \<in> set (coreVolumes st)"
      by simp
    from w False have "w \<noteq> v"
      by auto
    with names w vin have "volumeName w \<noteq> volumeName v"
      by (meson distinct_map inj_onD)
    with w have keep: "backendVolumes st2 name \<noteq> []"
      by (auto simp: backendVolumes_def filter_empty_conv vs2)
    from False have other: "name \<noteq> vBackendName v"
      by simp
    have "findBackend name (coreBackends st') = Some b"
      using mem by (simp add: bs' removeEmptyOffline_backends bs2 findBackend_filter_other [OF other])
    moreover have "findBackend name (stBackends (storeClient st')) \<noteq> None"
      using stored by (simp add: sb' removeEmptyOffline_stored sb2 findBackend_filter_other [OF other])
    ultimately show ?thesis
      using keep by (simp add: vols)
  qed
qed

lemma DeleteBackend_offline:
  assumes "bootstrapped orch"
    and "findBackend name (coreBackends orch) = Some b"
    and "backendVolumes orch name \<noteq> []"
  shows "DeleteBackend name orch =
           (Inr (),
            orch\<lparr>coreBackends := map (\<lambda>b. if sbName b = name then b\<lparr>sbState := Offline\<rparr> else b)
                                    (coreBackends orch),
                 coreClasses := map (removeBackendFromClass name) (coreClasses orch),
                 storeClient := Store_AddBackend (b\<lparr>sbState := Offline\<rparr>) (storeClient orch)\<rparr>)"
  using assms by (simp add: DeleteBackend_def whenReady_def)

text \<open>
  Claim C3. On a bootstrapped orchestrator, DeleteBackend of a backend that
  still has a volume succeeds and does not remove it: the backend stays in
  memory, offline, and the offline record is what the store now holds; the
  volumes are untouched, so GetVolume answers as before; an AddVolume whose
  class matched pools of that backend only fails and changes nothing, and in no
  state does AddVolume place a volume on a backend that is not online. From
  then on, in any state in which the backend is offline, stored and in use, and
  the volumes are known by distinct names, a successful DeleteVolume leaves the
  backend out of memory, and out of the store, exactly when no volume of the
  backend is left.
\<close>

theorem C3_DeleteBackend_offline:
  assumes "bootstrapped orch"
    and "findBackend name (coreBackends orch) = Some b"
    and "backendVolumes orch name \<noteq> []"
  shows "\<exists>orch1. DeleteBackend name orch = (Inr (), orch1)
           \<and> findBackend name (coreBackends orch1) = Some (b\<lparr>sbState := Offline\<rparr>)
           \<and> findBackend name (stBackends (storeClient orch1)) = Some (b\<lparr>sbState := Offline\<rparr>)
           \<and> coreVolumes orch1 = coreVolumes orch
           \<and> (\<forall>n. fst (GetVolume n orch1) = fst (GetVolume n orch))
           \<and> (\<forall>drv cfg.
                 (\<forall>sc. findClass (cfgStorageClass cfg) (coreClasses orch) = Some sc
                        \<longrightarrow> (\<forall>pair \<in> set (scMatched sc). fst pair = name))
                 \<longrightarrow> (\<exists>e. AddVolume drv cfg orch1 = (Inl e, orch1)))
           \<and> (\<forall>drv cfg st v st'.
                 AddVolume drv cfg st = (Inr v, st')
                 \<longrightarrow> (\<exists>b'. findBackend (vBackendName v) (coreBackends st) = Some b'
                            \<and> sbState b' = Online))
           \<and> (\<forall>drv n st st' b'.
                 DeleteVolume drv n st = (Inr (), st')
                 \<and> distinct (map volumeName (coreVolumes st))
                 \<and> findBackend name (coreBackends st) = Some b' \<and> sbState b' = Offline
                 \<and> findBackend name (stBackends (storeClient st)) \<noteq> None
                 \<and> backendVolumes st name \<noteq> []
                 \<longrightarrow> (findBackend name (coreBackends st') = None) = (backendVolumes st' name = [])
                   \<and> (findBackend name (stBackends (storeClient st')) = None)
                       = (backendVolumes st' name = []))"
proof -
  let ?orch1 = "orch\<lparr>coreBackends := map (\<lambda>b. if sbName b = name then b\<lparr>sbState := Offline\<rparr> else b)
                                    (coreBackends orch),
                 coreClasses := map (removeBackendFromClass name) (coreClasses orch),
                 storeClient := Store_AddBackend (b\<lparr>sbState := Offline\<rparr>) (storeClient orch)\<rparr>"
  have run: "DeleteBackend name orch = (Inr (), ?orch1)"
    using assms by (rule DeleteBackend_offline)
  have bname: "sbName b = name"
    using findBackend_name [OF assms(2)] by simp
  have mem: "findBackend name (coreBackends ?orch1) = Some (b\<lparr>sbState := Offline\<rparr>)"
    using assms(2) by (simp add: findBackend_offline)
  have stored: "findBackend name (stBackends (storeClient ?orch1)) = Some (b\<lparr>sbState := Offline\<rparr>)"
    using find_upsert_same [of sbName "b\<lparr>sbState := Offline\<rparr>" "stBackends (storeClient orch)"] bname
    by (simp add: Store_AddBackend_def findBackend_def)
  have vols: "coreVolumes ?orch1 = coreVolumes orch"
    by simp
  have get: "\<forall>n. fst (GetVolume n ?orch1) = fst (GetVolume n orch)"
    using assms(1) by (simp add: GetVolume_def whenReady_def split: option.splits)
  have add: "\<forall>drv cfg.
                 (\<forall>sc. findClass (cfgStorageClass cfg) (coreClasses orch) = Some sc
                        \<longrightarrow> (\<forall>pair \<in> set (scMatched sc). fst pair = name))
                 \<longrightarrow> (\<exists>e. AddVolume drv cfg ?orch1 = (Inl e, ?orch1))"
  proof (intro allI impI)
    fix drv :: driver and cfg :: VolumeConfig
    assume only: "\<forall>sc. findClass (cfgStorageClass cfg) (coreClasses orch) = Some sc
                        \<longrightarrow> (\<forall>pair \<in> set (scMatched sc). fst pair = name)"
    have "\<forall>sc. findClass (cfgStorageClass cfg) (coreClasses ?orch1) = Some sc \<longrightarrow> scMatched sc = []"
      using only
      by (fastforce simp: findClass_removeBackend removeBackendFromClass_def filter_empty_conv)
    moreover have "bootstrapped ?orch1"
      using assms(1) by simp
    ultimately show "\<exists>e. AddVolume drv cfg ?orch1 = (Inl e, ?orch1)"
      by (rule AddVolume_no_pool [rotated])
  qed
  have online: "\<forall>drv cfg st v st'.
                 AddVolume drv cfg st = (Inr v, st')
                 \<longrightarrow> (\<exists>b'. findBackend (vBackendName v) (coreBackends st) = Some b'
                            \<and> sbState b' = Online)"
    using AddVolume_online by blast
  have last: "\<forall>drv n st st' b'.
                 DeleteVolume drv n st = (Inr (), st')
                 \<and> distinct (map volumeName (coreVolumes st))
                 \<and> findBackend name (coreBackends st) = Some b' \<and> sbState b' = Offline
                 \<and> findBackend name (stBackends (storeClient st)) \<noteq> None
                 \<and> backendVolumes st name \<noteq> []
                 \<longrightarrow> (findBackend name (coreBackends st') = None) = (backendVolumes st' name = [])
                   \<and> (findBackend name (stBackends (storeClient st')) = None)
                       = (backendVolumes st' name = [])"
    using DeleteVolume_offline_backend by blast
  show ?thesis
    using run mem stored vols get add online last
    by (intro exI [of _ ?orch1] conjI) assumption+
qed

theorem C3_DeleteBackend_offline_witness:
  "bootstrapped scenarioOrchestrator
   \<and> findBackend ''b1'' (coreBackends scenarioOrchestrator) = Some scenarioBackend
   \<and> backendVolumes scenarioOrchestrator ''b1'' = [scenarioVolume]
   \<and> (\<exists>orch1. DeleteBackend ''b1'' scenarioOrchestrator = (Inr (), orch1)
         \<and> findBackend ''b1'' (coreBackends orch1) = Some (scenarioBackend\<lparr>sbState := Offline\<rparr>)
         \<and> findBackend ''b1'' (stBackends (storeClient orch1)) = Some (scenarioBackend\<lparr>sbState := Offline\<rparr>)
         \<and> fst (GetVolume ''v'' orch1) = Inr scenarioVolume
         \<and> (\<exists>e. AddVolume okDriver (generateVolumeConfig ''w'' 50 ''sc'' File) orch1 = (Inl e, orch1))
         \<and> findBackend ''b1'' (coreBackends (snd (DeleteVolume okDriver ''v'' orch1))) = None
         \<and> findBackend ''b1'' (stBackends (storeClient (snd (DeleteVolume okDriver ''v'' orch1)))) = None)"
proof -
  have ready: "bootstrapped scenarioOrchestrator"
    and found: "findBackend ''b1'' (coreBackends scenarioOrchestrator) = Some scenarioBackend"
    and vols: "backendVolumes scenarioOrchestrator ''b1'' = [scenarioVolume]"
    by (simp_all add: scenarioOrchestrator_eq findBackend_def scenarioBackend_def
        backendVolumes_def scenarioVolume_def)
  have used: "backendVolumes scenarioOrchestrator ''b1'' \<noteq> []"
    by (simp add: vols)
  from C3_DeleteBackend_offline [OF ready found used] obtain orch1 where
    run: "DeleteBackend ''b1'' scenarioOrchestrator = (Inr (), orch1)"
    and mem: "findBackend ''b1'' (coreBackends orch1) = Some (scenarioBackend\<lparr>sbState := Offline\<rparr>)"
    and stored: "findBackend ''b1'' (stBackends (storeClient orch1))
                   = Some (scenarioBackend\<lparr>sbState := Offline\<rparr>)"
    and same: "coreVolumes orch1 = coreVolumes scenarioOrchestrator"
    and get: "\<forall>n. fst (GetVolume n orch1) = fst (GetVolume n scenarioOrchestrator)"
    and add: "\<forall>drv cfg.
                 (\<forall>sc. findClass (cfgStorageClass cfg) (coreClasses scenarioOrchestrator) = Some sc
                        \<longrightarrow> (\<forall>pair \<in> set (scMatched sc). fst pair = ''b1''))
                 \<longrightarrow> (\<exists>e. AddVolume drv cfg orch1 = (Inl e, orch1))"
    and last: "\<forall>drv n st st' b'.
                 DeleteVolume drv n st = (Inr (), st')
                 \<and> distinct (map volumeName (coreVolumes st))
                 \<and> findBackend ''b1'' (coreBackends st) = Some b' \<and> sbState b' = Offline
                 \<and> findBackend ''b1'' (stBackends (storeClient st)) \<noteq> None
                 \<and> backendVolumes st ''b1'' \<noteq> []
                 \<longrightarrow> (findBackend ''b1'' (coreBackends st') = None) = (backendVolumes st' ''b1'' = [])
                   \<and> (findBackend ''b1'' (stBackends (storeClient st')) = None)
                       = (backendVolumes st' ''b1'' = [])"
    by blast
  have orch1: "orch1 = offlineOrchestrator"
    using run by (simp add: offlineOrchestrator_def)
  have g: "fst (GetVolume ''v'' orch1) = Inr scenarioVolume"
    using get by (simp add: scenarioOrchestrator_eq GetVolume_def whenReady_def findVolume_def
        scenarioVolume_def generateVolumeConfig_def)
  have "\<forall>sc. findClass (cfgStorageClass (generateVolumeConfig ''w'' 50 ''sc'' File))
                (coreClasses scenarioOrchestrator) = Some sc
              \<longrightarrow> (\<forall>pair \<in> set (scMatched sc). fst pair = ''b1'')"
    by (simp add: scenarioOrchestrator_eq findClass_def generateVolumeConfig_def primaryClass_def)
  with add have a: "\<exists>e. AddVolume okDriver (generateVolumeConfig ''w'' 50 ''sc'' File) orch1 = (Inl e, orch1)"
    by blast
  have del: "DeleteVolume okDriver ''v'' orch1 = (Inr (), snd (DeleteVolume okDriver ''v'' orch1))"
    by (simp add: orch1 offlineOrchestrator_eq scenarioOrchestrator_eq DeleteVolume_def whenReady_def
        findVolume_def scenarioVolume_def generateVolumeConfig_def okDriver_def)
  have names: "distinct (map volumeName (coreVolumes orch1))"
    by (simp add: same scenarioOrchestrator_eq)
  have none: "backendVolumes (snd (DeleteVolume okDriver ''v'' orch1)) ''b1'' = []"
    by (simp add: orch1 offlineOrchestrator_eq scenarioOrchestrator_eq DeleteVolume_def whenReady_def
        findVolume_def scenarioVolume_def generateVolumeConfig_def okDriver_def removeVolume_def
        removeEmptyOffline_def findBackend_def scenarioBackend_def backendVolumes_def volumeName_def)
  have "sbState (scenarioBackend\<lparr>sbState := Offline\<rparr>) = Offline"
    and "findBackend ''b1'' (stBackends (storeClient orch1)) \<noteq> None"
    and "backendVolumes orch1 ''b1'' \<noteq> []"
    using stored vols by (simp_all add: backendVolumes_def same)
  with last del names mem none have
    "findBackend ''b1'' (coreBackends (snd (DeleteVolume okDriver ''v'' orch1))) = None
     \<and> findBackend ''b1'' (stBackends (storeClient (snd (DeleteVolume okDriver ''v'' orch1)))) = None"
    by blast
  with ready found vols run mem stored g a show ?thesis
    by blast
qed

subsection \<open>Records under a key\<close>









subsection \<open>The graph that Bootstrap restores\<close>








subsection \<open>Rolling back the journal\<close>

















subsection \<open>Counting the Destroy calls\<close>



















subsection \<open>Bootstrap with a residual AddVolume transaction\<close>






end
